theory Spec2Isabelle
  imports Main
begin

section \<open>The page as a state\<close>

text \<open>
  The scripts \<^verbatim>\<open>static/js/main.js\<close> and \<^verbatim>\<open>floating-save-button.js\<close> only read and
  write the document, raise alerts and issue requests. The model makes that state explicit.

  A JavaScript string is modelled as a \<^typ>\<open>string\<close> holding its UTF-8 bytes. The code
  only concatenates strings, compares them, tests them for emptiness and tests the suffix
  \<^verbatim>\<open>.txt\<close>; on well-formed strings these agree between UTF-16 code units and UTF-8 bytes.

  An element is a record of the properties the scripts touch. \<open>content\<close> is what was last
  written through \<^verbatim>\<open>textContent\<close> or \<^verbatim>\<open>innerHTML\<close> (markup is kept as the assigned string;
  the elements a parser would make of it are not modelled). \<open>val\<close> is the \<^verbatim>\<open>value\<close>
  property, \<open>display\<close> the inline \<^verbatim>\<open>style.display\<close> (empty when unset).
\<close>

datatype content = Text string | Html string

record node =
  tag :: string
  ident :: "string option"
  nameAttr :: "string option"
  classList :: "string list"
  dataAttrs :: "(string \<times> string) list"
  display :: string
  disabled :: bool
  content :: content
  val :: string
  checked :: bool
  files :: "string list"
  parent :: "nat option"

text \<open>
  What the scripts do to the outside world is appended to a trace: alerts, console output,
  requests, page reloads and timers. A request body is a JSON object or a form; a JSON
  object is a list of fields in insertion order, as \<^verbatim>\<open>JSON.stringify\<close> writes them.
  Numbers read with \<^verbatim>\<open>parseFloat\<close>/\<^verbatim>\<open>parseInt\<close> are kept as the text they are parsed from.
\<close>

datatype jval = JBool bool | JStr string | JFloat string | JInt string | JFile string

type_synonym obj = "(string \<times> jval) list"

datatype body = NoBody | Json obj | FormData obj

datatype effect =
    Alert string
  | Fetch string body
  | ConsoleLog string
  | ConsoleError string string
  | Confirm string
  | Reload
  | SetTimeout nat string

text \<open>
  Elements live in a store, addressed by numbers, so that a handler's \<^verbatim>\<open>this\<close> and the
  references captured when the page loaded stay valid whatever happens to the document.
  \<open>doc\<close> lists the elements attached to the document, in document order; \<open>fresh\<close> is the
  next address \<^verbatim>\<open>createElement\<close> hands out.
\<close>

record ui =
  store :: "nat \<Rightarrow> node"
  doc :: "nat list"
  fresh :: nat
  trace :: "effect list"

subsection \<open>Literals\<close>

text \<open>
  The string literals of the scripts that are not ASCII, as their UTF-8 bytes. Labels of
  controls are named \<open>lbl_\<close>, messages \<open>msg_\<close>.
\<close>

definition lbl_fetching_models :: string where
  "lbl_fetching_models = [CHR 0xE6, CHR 0xAD, CHR 0xA3, CHR 0xE5, CHR 0x9C, CHR 0xA8, CHR 0xE8,
     CHR 0x8E, CHR 0xB7, CHR 0xE5, CHR 0x8F, CHR 0x96, CHR 0xE6, CHR 0xA8, CHR 0xA1, CHR 0xE5, CHR
     0x9E, CHR 0x8B, CHR 0xE5, CHR 0x88, CHR 0x97, CHR 0xE8, CHR 0xA1, CHR 0xA8] @ ''...''"

definition lbl_refresh_models :: string where
  "lbl_refresh_models = [CHR 0xE5, CHR 0x88, CHR 0xB7, CHR 0xE6, CHR 0x96, CHR 0xB0, CHR 0xE6,
     CHR 0xA8, CHR 0xA1, CHR 0xE5, CHR 0x9E, CHR 0x8B, CHR 0xE5, CHR 0x88, CHR 0x97, CHR 0xE8, CHR
     0xA1, CHR 0xA8]"

definition msg_skip_refresh :: string where
  "msg_skip_refresh = ''Ollama API URL'' @ [CHR 0xE6, CHR 0x9C, CHR 0xAA, CHR 0xE8, CHR 0xAE,
     CHR 0xBE, CHR 0xE7, CHR 0xBD, CHR 0xAE, CHR 0xEF, CHR 0xBC, CHR 0x8C, CHR 0xE8, CHR 0xB7, CHR
     0xB3, CHR 0xE8, CHR 0xBF, CHR 0x87, CHR 0xE8, CHR 0x87, CHR 0xAA, CHR 0xE5, CHR 0x8A, CHR
     0xA8, CHR 0xE5, CHR 0x88, CHR 0xB7, CHR 0xE6, CHR 0x96, CHR 0xB0, CHR 0xE6, CHR 0xA8, CHR
     0xA1, CHR 0xE5, CHR 0x9E, CHR 0x8B, CHR 0xE5, CHR 0x88, CHR 0x97, CHR 0xE8, CHR 0xA1, CHR
     0xA8]"

definition msg_models_updated :: string where
  "msg_models_updated = [CHR 0xE6, CHR 0xA8, CHR 0xA1, CHR 0xE5, CHR 0x9E, CHR 0x8B, CHR 0xE5,
     CHR 0x88, CHR 0x97, CHR 0xE8, CHR 0xA1, CHR 0xA8, CHR 0xE5, CHR 0xB7, CHR 0xB2, CHR 0xE6, CHR
     0x9B, CHR 0xB4, CHR 0xE6, CHR 0x96, CHR 0xB0]"

definition msg_models_failed :: string where
  "msg_models_failed = [CHR 0xE8, CHR 0x8E, CHR 0xB7, CHR 0xE5, CHR 0x8F, CHR 0x96, CHR 0xE6,
     CHR 0xA8, CHR 0xA1, CHR 0xE5, CHR 0x9E, CHR 0x8B, CHR 0xE5, CHR 0x88, CHR 0x97, CHR 0xE8, CHR
     0xA1, CHR 0xA8, CHR 0xE5, CHR 0xA4, CHR 0xB1, CHR 0xE8, CHR 0xB4, CHR 0xA5] @ '':''"

definition msg_models_error :: string where
  "msg_models_error = [CHR 0xE8, CHR 0x8E, CHR 0xB7, CHR 0xE5, CHR 0x8F, CHR 0x96, CHR 0xE6, CHR
     0xA8, CHR 0xA1, CHR 0xE5, CHR 0x9E, CHR 0x8B, CHR 0xE5, CHR 0x88, CHR 0x97, CHR 0xE8, CHR
     0xA1, CHR 0xA8, CHR 0xE5, CHR 0x87, CHR 0xBA, CHR 0xE9, CHR 0x94, CHR 0x99] @ '':''"

definition msg_config_saved :: string where
  "msg_config_saved = ''API'' @ [CHR 0xE9, CHR 0x85, CHR 0x8D, CHR 0xE7, CHR 0xBD, CHR 0xAE, CHR
     0xE5, CHR 0xB7, CHR 0xB2, CHR 0xE4, CHR 0xBF, CHR 0x9D, CHR 0xE5, CHR 0xAD, CHR 0x98]"

definition msg_config_failed :: string where
  "msg_config_failed = [CHR 0xE4, CHR 0xBF, CHR 0x9D, CHR 0xE5, CHR 0xAD, CHR 0x98] @ ''API'' @
     [CHR 0xE9, CHR 0x85, CHR 0x8D, CHR 0xE7, CHR 0xBD, CHR 0xAE, CHR 0xE5, CHR 0xA4, CHR 0xB1, CHR
     0xE8, CHR 0xB4, CHR 0xA5] @ '': ''"

definition msg_config_error :: string where
  "msg_config_error = [CHR 0xE4, CHR 0xBF, CHR 0x9D, CHR 0xE5, CHR 0xAD, CHR 0x98] @ ''API'' @
     [CHR 0xE9, CHR 0x85, CHR 0x8D, CHR 0xE7, CHR 0xBD, CHR 0xAE, CHR 0xE5, CHR 0x87, CHR 0xBA, CHR
     0xE9, CHR 0x94, CHR 0x99] @ '': ''"



definition lbl_test_connection :: string where
  "lbl_test_connection = [CHR 0xE6, CHR 0xB5, CHR 0x8B, CHR 0xE8, CHR 0xAF, CHR 0x95, CHR 0xE8,
     CHR 0xBF, CHR 0x9E, CHR 0xE6, CHR 0x8E, CHR 0xA5]"


definition msg_test_ok :: string where
  "msg_test_ok = [CHR 0xE6, CHR 0xB5, CHR 0x8B, CHR 0xE8, CHR 0xAF, CHR 0x95, CHR 0xE6, CHR
     0x88, CHR 0x90, CHR 0xE5, CHR 0x8A, CHR 0x9F, CHR 0xEF, CHR 0xBC, CHR 0x81, CHR 0xE5, CHR
     0x93, CHR 0x8D, CHR 0xE5, CHR 0xBA, CHR 0x94] @ '': ''"

definition msg_test_failed :: string where
  "msg_test_failed = [CHR 0xE6, CHR 0xB5, CHR 0x8B, CHR 0xE8, CHR 0xAF, CHR 0x95, CHR 0xE5, CHR
     0xA4, CHR 0xB1, CHR 0xE8, CHR 0xB4, CHR 0xA5] @ '': ''"

definition msg_test_error :: string where
  "msg_test_error = [CHR 0xE6, CHR 0xB5, CHR 0x8B, CHR 0xE8, CHR 0xAF, CHR 0x95, CHR 0xE5, CHR
     0x87, CHR 0xBA, CHR 0xE9, CHR 0x94, CHR 0x99] @ '': ''"

definition msg_settings_saved :: string where
  "msg_settings_saved = [CHR 0xE8, CHR 0xAE, CHR 0xBE, CHR 0xE7, CHR 0xBD, CHR 0xAE, CHR 0xE5,
     CHR 0xB7, CHR 0xB2, CHR 0xE4, CHR 0xBF, CHR 0x9D, CHR 0xE5, CHR 0xAD, CHR 0x98]"

definition msg_settings_failed :: string where
  "msg_settings_failed = [CHR 0xE4, CHR 0xBF, CHR 0x9D, CHR 0xE5, CHR 0xAD, CHR 0x98, CHR 0xE8,
     CHR 0xAE, CHR 0xBE, CHR 0xE7, CHR 0xBD, CHR 0xAE, CHR 0xE5, CHR 0xA4, CHR 0xB1, CHR 0xE8, CHR
     0xB4, CHR 0xA5]"

definition msg_settings_error :: string where
  "msg_settings_error = [CHR 0xE4, CHR 0xBF, CHR 0x9D, CHR 0xE5, CHR 0xAD, CHR 0x98, CHR 0xE8,
     CHR 0xAE, CHR 0xBE, CHR 0xE7, CHR 0xBD, CHR 0xAE, CHR 0xE5, CHR 0x87, CHR 0xBA, CHR 0xE9, CHR
     0x94, CHR 0x99] @ '': ''"


definition msg_reset_done :: string where
  "msg_reset_done = [CHR 0xE5, CHR 0xBA, CHR 0x94, CHR 0xE7, CHR 0x94, CHR 0xA8, CHR 0xE5, CHR
     0xB7, CHR 0xB2, CHR 0xE9, CHR 0x87, CHR 0x8D, CHR 0xE7, CHR 0xBD, CHR 0xAE]"

definition msg_reset_failed :: string where
  "msg_reset_failed = [CHR 0xE9, CHR 0x87, CHR 0x8D, CHR 0xE7, CHR 0xBD, CHR 0xAE, CHR 0xE5, CHR
     0xBA, CHR 0x94, CHR 0xE7, CHR 0x94, CHR 0xA8, CHR 0xE5, CHR 0xA4, CHR 0xB1, CHR 0xE8, CHR
     0xB4, CHR 0xA5]"

definition msg_reset_error :: string where
  "msg_reset_error = [CHR 0xE9, CHR 0x87, CHR 0x8D, CHR 0xE7, CHR 0xBD, CHR 0xAE, CHR 0xE5, CHR
     0xBA, CHR 0x94, CHR 0xE7, CHR 0x94, CHR 0xA8, CHR 0xE5, CHR 0x87, CHR 0xBA, CHR 0xE9, CHR
     0x94, CHR 0x99] @ '': ''"

definition msg_choose_file :: string where
  "msg_choose_file = [CHR 0xE8, CHR 0xAF, CHR 0xB7, CHR 0xE9, CHR 0x80, CHR 0x89, CHR 0xE6, CHR
     0x8B, CHR 0xA9, CHR 0xE5, CHR 0xB0, CHR 0x8F, CHR 0xE8, CHR 0xAF, CHR 0xB4, CHR 0xE6, CHR
     0x96, CHR 0x87, CHR 0xE4, CHR 0xBB, CHR 0xB6]"

definition msg_txt_only :: string where
  "msg_txt_only = [CHR 0xE5, CHR 0x8F, CHR 0xAA, CHR 0xE6, CHR 0x94, CHR 0xAF, CHR 0xE6, CHR
     0x8C, CHR 0x81] @ ''TXT'' @ [CHR 0xE6, CHR 0xA0, CHR 0xBC, CHR 0xE5, CHR 0xBC, CHR 0x8F, CHR
     0xE7, CHR 0x9A, CHR 0x84, CHR 0xE6, CHR 0x96, CHR 0x87, CHR 0xE4, CHR 0xBB, CHR 0xB6]"

definition msg_upload_failed :: string where
  "msg_upload_failed = [CHR 0xE5, CHR 0xA4, CHR 0x84, CHR 0xE7, CHR 0x90, CHR 0x86, CHR 0xE5,
     CHR 0xB0, CHR 0x8F, CHR 0xE8, CHR 0xAF, CHR 0xB4, CHR 0xE5, CHR 0xA4, CHR 0xB1, CHR 0xE8, CHR
     0xB4, CHR 0xA5] @ '': ''"

definition msg_upload_error :: string where
  "msg_upload_error = [CHR 0xE4, CHR 0xB8, CHR 0x8A, CHR 0xE4, CHR 0xBC, CHR 0xA0, CHR 0xE5, CHR
     0xB0, CHR 0x8F, CHR 0xE8, CHR 0xAF, CHR 0xB4, CHR 0xE5, CHR 0x87, CHR 0xBA, CHR 0xE9, CHR
     0x94, CHR 0x99] @ '': ''"

definition lbl_initializing :: string where
  "lbl_initializing = [CHR 0xE5, CHR 0x88, CHR 0x9D, CHR 0xE5, CHR 0xA7, CHR 0x8B, CHR 0xE5, CHR
     0x8C, CHR 0x96, CHR 0xE4, CHR 0xB8, CHR 0xAD] @ ''...''"

definition lbl_start_journey :: string where
  "lbl_start_journey = [CHR 0xE5, CHR 0xBC, CHR 0x80, CHR 0xE5, CHR 0xA7, CHR 0x8B, CHR 0xE6,
     CHR 0x97, CHR 0x85, CHR 0xE7, CHR 0xA8, CHR 0x8B]"

definition msg_start_failed :: string where
  "msg_start_failed = [CHR 0xE5, CHR 0x88, CHR 0x9D, CHR 0xE5, CHR 0xA7, CHR 0x8B, CHR 0xE5, CHR
     0x8C, CHR 0x96, CHR 0xE5, CHR 0x8F, CHR 0x99, CHR 0xE4, CHR 0xBA, CHR 0x8B, CHR 0xE5, CHR
     0xA4, CHR 0xB1, CHR 0xE8, CHR 0xB4, CHR 0xA5] @ '': ''"

definition msg_start_error :: string where
  "msg_start_error = [CHR 0xE5, CHR 0x88, CHR 0x9D, CHR 0xE5, CHR 0xA7, CHR 0x8B, CHR 0xE5, CHR
     0x8C, CHR 0x96, CHR 0xE5, CHR 0x8F, CHR 0x99, CHR 0xE4, CHR 0xBA, CHR 0x8B, CHR 0xE5, CHR
     0x87, CHR 0xBA, CHR 0xE9, CHR 0x94, CHR 0x99] @ '': ''"

definition msg_enter_action :: string where
  "msg_enter_action = [CHR 0xE8, CHR 0xAF, CHR 0xB7, CHR 0xE8, CHR 0xBE, CHR 0x93, CHR 0xE5, CHR
     0x85, CHR 0xA5, CHR 0xE6, CHR 0x82, CHR 0xA8, CHR 0xE7, CHR 0x9A, CHR 0x84, CHR 0xE8, CHR
     0xA1, CHR 0x8C, CHR 0xE5, CHR 0x8A, CHR 0xA8]"

definition lbl_processing :: string where
  "lbl_processing = [CHR 0xE5, CHR 0xA4, CHR 0x84, CHR 0xE7, CHR 0x90, CHR 0x86, CHR 0xE4, CHR
     0xB8, CHR 0xAD] @ ''...''"

definition lbl_send :: string where
  "lbl_send = [CHR 0xE5, CHR 0x8F, CHR 0x91, CHR 0xE9, CHR 0x80, CHR 0x81]"

definition msg_action_failed :: string where
  "msg_action_failed = [CHR 0xE5, CHR 0xA4, CHR 0x84, CHR 0xE7, CHR 0x90, CHR 0x86, CHR 0xE8,
     CHR 0xA1, CHR 0x8C, CHR 0xE5, CHR 0x8A, CHR 0xA8, CHR 0xE5, CHR 0xA4, CHR 0xB1, CHR 0xE8, CHR
     0xB4, CHR 0xA5] @ '': ''"

definition msg_action_error :: string where
  "msg_action_error = [CHR 0xE5, CHR 0xA4, CHR 0x84, CHR 0xE7, CHR 0x90, CHR 0x86, CHR 0xE8, CHR
     0xA1, CHR 0x8C, CHR 0xE5, CHR 0x8A, CHR 0xA8, CHR 0xE5, CHR 0x87, CHR 0xBA, CHR 0xE9, CHR
     0x94, CHR 0x99] @ '': ''"


definition lbl_save_game :: string where
  "lbl_save_game = [CHR 0xE4, CHR 0xBF, CHR 0x9D, CHR 0xE5, CHR 0xAD, CHR 0x98, CHR 0xE6, CHR
     0xB8, CHR 0xB8, CHR 0xE6, CHR 0x88, CHR 0x8F]"

definition msg_game_saved :: string where
  "msg_game_saved = [CHR 0xE6, CHR 0xB8, CHR 0xB8, CHR 0xE6, CHR 0x88, CHR 0x8F, CHR 0xE5, CHR
     0xB7, CHR 0xB2, CHR 0xE4, CHR 0xBF, CHR 0x9D, CHR 0xE5, CHR 0xAD, CHR 0x98]"

definition msg_save_failed :: string where
  "msg_save_failed = [CHR 0xE4, CHR 0xBF, CHR 0x9D, CHR 0xE5, CHR 0xAD, CHR 0x98, CHR 0xE6, CHR
     0xB8, CHR 0xB8, CHR 0xE6, CHR 0x88, CHR 0x8F, CHR 0xE5, CHR 0xA4, CHR 0xB1, CHR 0xE8, CHR
     0xB4, CHR 0xA5] @ '': ''"

definition msg_save_error :: string where
  "msg_save_error = [CHR 0xE4, CHR 0xBF, CHR 0x9D, CHR 0xE5, CHR 0xAD, CHR 0x98, CHR 0xE6, CHR
     0xB8, CHR 0xB8, CHR 0xE6, CHR 0x88, CHR 0x8F, CHR 0xE5, CHR 0x87, CHR 0xBA, CHR 0xE9, CHR
     0x94, CHR 0x99] @ '': ''"



definition lbl_load :: string where
  "lbl_load = [CHR 0xE5, CHR 0x8A, CHR 0xA0, CHR 0xE8, CHR 0xBD, CHR 0xBD]"

definition msg_load_failed :: string where
  "msg_load_failed = [CHR 0xE5, CHR 0x8A, CHR 0xA0, CHR 0xE8, CHR 0xBD, CHR 0xBD, CHR 0xE5, CHR
     0x8E, CHR 0x86, CHR 0xE5, CHR 0x8F, CHR 0xB2, CHR 0xE5, CHR 0xAF, CHR 0xB9, CHR 0xE8, CHR
     0xAF, CHR 0x9D, CHR 0xE5, CHR 0xA4, CHR 0xB1, CHR 0xE8, CHR 0xB4, CHR 0xA5] @ '': ''"

definition msg_load_error :: string where
  "msg_load_error = [CHR 0xE5, CHR 0x8A, CHR 0xA0, CHR 0xE8, CHR 0xBD, CHR 0xBD, CHR 0xE5, CHR
     0x8E, CHR 0x86, CHR 0xE5, CHR 0x8F, CHR 0xB2, CHR 0xE5, CHR 0xAF, CHR 0xB9, CHR 0xE8, CHR
     0xAF, CHR 0x9D, CHR 0xE5, CHR 0x87, CHR 0xBA, CHR 0xE9, CHR 0x94, CHR 0x99] @ '': ''"



definition lbl_delete :: string where
  "lbl_delete = [CHR 0xE5, CHR 0x88, CHR 0xA0, CHR 0xE9, CHR 0x99, CHR 0xA4]"

definition msg_delete_failed :: string where
  "msg_delete_failed = [CHR 0xE5, CHR 0x88, CHR 0xA0, CHR 0xE9, CHR 0x99, CHR 0xA4, CHR 0xE5,
     CHR 0x8E, CHR 0x86, CHR 0xE5, CHR 0x8F, CHR 0xB2, CHR 0xE5, CHR 0xAF, CHR 0xB9, CHR 0xE8, CHR
     0xAF, CHR 0x9D, CHR 0xE5, CHR 0xA4, CHR 0xB1, CHR 0xE8, CHR 0xB4, CHR 0xA5] @ '': ''"

definition msg_delete_error :: string where
  "msg_delete_error = [CHR 0xE5, CHR 0x88, CHR 0xA0, CHR 0xE9, CHR 0x99, CHR 0xA4, CHR 0xE5, CHR
     0x8E, CHR 0x86, CHR 0xE5, CHR 0x8F, CHR 0xB2, CHR 0xE5, CHR 0xAF, CHR 0xB9, CHR 0xE8, CHR
     0xAF, CHR 0x9D, CHR 0xE5, CHR 0x87, CHR 0xBA, CHR 0xE9, CHR 0x94, CHR 0x99] @ '': ''"

definition html_no_history :: string where
  "html_no_history = ''<p>'' @ [CHR 0xE6, CHR 0x9A, CHR 0x82, CHR 0xE6, CHR 0x97, CHR 0xA0, CHR
     0xE5, CHR 0x8E, CHR 0x86, CHR 0xE5, CHR 0x8F, CHR 0xB2, CHR 0xE5, CHR 0xAF, CHR 0xB9, CHR
     0xE8, CHR 0xAF, CHR 0x9D, CHR 0xE8, CHR 0xAE, CHR 0xB0, CHR 0xE5, CHR 0xBD, CHR 0x95] @
     ''</p>''"

definition msg_global_failed :: string where
  "msg_global_failed = [CHR 0xE4, CHR 0xBF, CHR 0x9D, CHR 0xE5, CHR 0xAD, CHR 0x98, CHR 0xE5,
     CHR 0x85, CHR 0xA8, CHR 0xE5, CHR 0xB1, CHR 0x80, CHR 0xE8, CHR 0xAE, CHR 0xBE, CHR 0xE7, CHR
     0xBD, CHR 0xAE, CHR 0xE5, CHR 0xA4, CHR 0xB1, CHR 0xE8, CHR 0xB4, CHR 0xA5] @ '': ''"

definition msg_global_error :: string where
  "msg_global_error = [CHR 0xE4, CHR 0xBF, CHR 0x9D, CHR 0xE5, CHR 0xAD, CHR 0x98, CHR 0xE5, CHR
     0x85, CHR 0xA8, CHR 0xE5, CHR 0xB1, CHR 0x80, CHR 0xE8, CHR 0xAE, CHR 0xBE, CHR 0xE7, CHR
     0xBD, CHR 0xAE, CHR 0xE5, CHR 0x87, CHR 0xBA, CHR 0xE9, CHR 0x94, CHR 0x99] @ '': ''"

definition speaker_system :: string where
  "speaker_system = [CHR 0xE7, CHR 0xB3, CHR 0xBB, CHR 0xE7, CHR 0xBB, CHR 0x9F]"

definition speaker_user :: string where
  "speaker_user = [CHR 0xE7, CHR 0x94, CHR 0xA8, CHR 0xE6, CHR 0x88, CHR 0xB7]"

definition txt_welcome :: string where
  "txt_welcome = [CHR 0xE6, CHR 0xAC, CHR 0xA2, CHR 0xE8, CHR 0xBF, CHR 0x8E]"

text \<open>
  String conversion, as \<^verbatim>\<open>+\<close> and template literals apply it: of a property the
  response does not have (\<^verbatim>\<open>undefined\<close>), and of a missing attribute (\<^verbatim>\<open>null\<close>).
\<close>

definition strU :: "string option \<Rightarrow> string" where
  "strU x = (case x of None \<Rightarrow> ''undefined'' | Some s \<Rightarrow> s)"

definition strN :: "string option \<Rightarrow> string" where
  "strN x = (case x of None \<Rightarrow> ''null'' | Some s \<Rightarrow> s)"

subsection \<open>Selectors\<close>

definition getElementById :: "string \<Rightarrow> ui \<Rightarrow> nat option" where
  "getElementById i u = find (\<lambda>a. ident (store u a) = Some i) (doc u)"

text \<open>\<^verbatim>\<open>querySelectorAll('.c')\<close>\<close>

definition byClass :: "string \<Rightarrow> ui \<Rightarrow> nat list" where
  "byClass c u = filter (\<lambda>a. c \<in> set (classList (store u a))) (doc u)"

text \<open>\<^verbatim>\<open>querySelector('input[name="n"]:checked')\<close>\<close>

definition checkedInput :: "string \<Rightarrow> ui \<Rightarrow> nat option" where
  "checkedInput n u =
     find (\<lambda>a. tag (store u a) = ''input'' \<and> nameAttr (store u a) = Some n \<and> checked (store u a))
       (doc u)"

definition getAttribute :: "string \<Rightarrow> node \<Rightarrow> string option" where
  "getAttribute k n = map_of (dataAttrs n) k"

text \<open>The chain of ancestors of an element, nearest first, cut off after \<open>n\<close> steps.\<close>

fun ancestors :: "nat \<Rightarrow> (nat \<Rightarrow> node) \<Rightarrow> nat \<Rightarrow> nat list" where
  "ancestors 0 st a = []"
| "ancestors (Suc n) st a =
     (case parent (st a) of None \<Rightarrow> [] | Some p \<Rightarrow> p # ancestors n st p)"

definition ancestorsOf :: "ui \<Rightarrow> nat \<Rightarrow> nat list" where
  "ancestorsOf u a = ancestors (length (doc u)) (store u) a"

subsection \<open>Objects\<close>

text \<open>\<^verbatim>\<open>config.k = v\<close>: an existing property keeps its place, a new one goes last.\<close>

fun setField :: "string \<Rightarrow> jval \<Rightarrow> obj \<Rightarrow> obj" where
  "setField k v [] = [(k, v)]"
| "setField k v (p # ps) = (if fst p = k then (k, v) # ps else p # setField k v ps)"

definition hasField :: "string \<Rightarrow> obj \<Rightarrow> bool" where
  "hasField k ob = (map_of ob k \<noteq> None)"

section \<open>Collecting the configuration draft\<close>

text \<open>
  Reading a property of \<^verbatim>\<open>null\<close> throws a \<^verbatim>\<open>TypeError\<close>. The text of the error is the
  engine's; the model keeps one fixed string for it. A result is the value read, or on the
  left the error thrown.
\<close>

definition typeError :: string where
  "typeError = ''TypeError''"

text \<open>\<^verbatim>\<open>r.value\<close> and \<^verbatim>\<open>r.checked\<close> for a reference \<open>r\<close> that may be \<^verbatim>\<open>null\<close>.\<close>

definition valueOf :: "nat option \<Rightarrow> ui \<Rightarrow> string + string" where
  "valueOf r u = (case r of None \<Rightarrow> Inl typeError | Some a \<Rightarrow> Inr (val (store u a)))"

definition checkedOf :: "nat option \<Rightarrow> ui \<Rightarrow> string + bool" where
  "checkedOf r u = (case r of None \<Rightarrow> Inl typeError | Some a \<Rightarrow> Inr (checked (store u a)))"

definition valueById :: "string \<Rightarrow> ui \<Rightarrow> string + string" where
  "valueById i u = valueOf (getElementById i u) u"

definition checkedById :: "string \<Rightarrow> ui \<Rightarrow> string + bool" where
  "checkedById i u = checkedOf (getElementById i u) u"

text \<open>\<^verbatim>\<open>document.querySelector('input[name="n"]:checked').value\<close>\<close>

definition checkedValue :: "string \<Rightarrow> ui \<Rightarrow> string + string" where
  "checkedValue n u = valueOf (checkedInput n u) u"

text \<open>
  \<^verbatim>\<open>r?.value\<close> and \<^verbatim>\<open>r?.checked\<close>, which are \<^verbatim>\<open>undefined\<close> for \<^verbatim>\<open>null\<close>, and \<^verbatim>\<open>x || d\<close>, which
  replaces \<^verbatim>\<open>undefined\<close>, the empty string and \<^verbatim>\<open>false\<close> by \<open>d\<close>.
\<close>

definition optValue :: "nat option \<Rightarrow> ui \<Rightarrow> string option" where
  "optValue r u = (case r of None \<Rightarrow> None | Some a \<Rightarrow> Some (val (store u a)))"

definition optChecked :: "nat option \<Rightarrow> ui \<Rightarrow> bool option" where
  "optChecked r u = (case r of None \<Rightarrow> None | Some a \<Rightarrow> Some (checked (store u a)))"

definition orStr :: "string option \<Rightarrow> string \<Rightarrow> string" where
  "orStr x d = (case x of None \<Rightarrow> d | Some s \<Rightarrow> (if s = [] then d else s))"

definition orFalse :: "bool option \<Rightarrow> bool" where
  "orFalse x = (case x of None \<Rightarrow> False | Some b \<Rightarrow> b)"

definition valueOr :: "string \<Rightarrow> string \<Rightarrow> ui \<Rightarrow> string" where
  "valueOr i d u = orStr (optValue (getElementById i u) u) d"

definition checkedOr :: "string \<Rightarrow> ui \<Rightarrow> bool" where
  "checkedOr i u = orFalse (optChecked (getElementById i u) u)"

text \<open>
  The binding of results that may be a thrown error: the first error ends the evaluation.
\<close>

definition thenDo :: "string + 'a \<Rightarrow> ('a \<Rightarrow> string + 'b) \<Rightarrow> string + 'b" where
  "thenDo r f = (case r of Inl e \<Rightarrow> Inl e | Inr x \<Rightarrow> f x)"

subsection \<open>The submit handler of the form (main.js, lines 229 to 279)\<close>

text \<open>
  The custom-model part (lines 253 to 279) is written once for \<^verbatim>\<open>analysis\<close> and once for
  \<^verbatim>\<open>writing\<close>: \<open>p\<close> is that prefix.
\<close>

definition formModel :: "string \<Rightarrow> ui \<Rightarrow> obj \<Rightarrow> string + obj" where
  "formModel p u config =
     thenDo (checkedValue (p @ ''-model'') u) (\<lambda>modelValue.
       let config = setField (p @ ''_model_name'') (JStr modelValue) config in
       if modelValue = ''custom'' then
         thenDo (checkedValue (p @ ''-custom-type'') u) (\<lambda>customType.
           let config = setField (p @ ''_custom_type'') (JStr customType) config in
           if customType = ''ollama'' then
             thenDo (valueById (p @ ''-ollama-model-select'') u) (\<lambda>v.
               Inr (setField (p @ ''_custom_ollama_model'') (JStr v) config))
           else
             thenDo (valueById (p @ ''-online-model-name'') u) (\<lambda>v.
               Inr (setField (p @ ''_custom_online_model'') (JStr v) config)))
       else Inr config)"

definition formApi :: "ui \<Rightarrow> string + obj" where
  "formApi u =
     thenDo (checkedById ''use-online-api'' u) (\<lambda>useOnlineApi.
       let config = [(''use_online_api'', JBool useOnlineApi)] in
       if \<not> useOnlineApi then
         thenDo (valueById ''ollama-api-url'' u) (\<lambda>url.
           let config = setField ''ollama_api_url'' (JStr url) config;
               ollamaModelSelect = getElementById ''ollama-model-select'' u in
           if ollamaModelSelect \<noteq> None then
             thenDo (valueOf ollamaModelSelect u) (\<lambda>v.
               Inr (setField ''selected_ollama_model'' (JStr v) config))
           else Inr config)
       else
         thenDo (valueById ''online-api-url'' u) (\<lambda>url.
         thenDo (valueById ''online-api-key'' u) (\<lambda>key.
         thenDo (valueById ''online-model-name'' u) (\<lambda>model.
           Inr (setField ''online_api_model'' (JStr model)
                 (setField ''online_api_key'' (JStr key)
                   (setField ''online_api_url'' (JStr url) config)))))))"

text \<open>The draft the submit handler of \<^verbatim>\<open>api-config-form\<close> builds, or the error it throws.\<close>

definition collectFormConfig :: "ui \<Rightarrow> string + obj" where
  "collectFormConfig u =
     thenDo (formApi u) (\<lambda>config.
     thenDo (formModel ''analysis'' u config) (\<lambda>config.
       formModel ''writing'' u config))"

subsection \<open>collectGlobalConfig (floating-save-button.js, lines 74 to 140)\<close>

definition globalModel :: "string \<Rightarrow> ui \<Rightarrow> obj \<Rightarrow> string + obj" where
  "globalModel p u config =
     (let modelRadio = checkedInput (p @ ''-model'') u in
      if modelRadio \<noteq> None then
        thenDo (valueOf modelRadio u) (\<lambda>modelValue.
          let config = setField (p @ ''_model_name'') (JStr modelValue) config in
          if modelValue = ''custom'' then
            let customTypeRadio = checkedInput (p @ ''-custom-type'') u in
            if customTypeRadio \<noteq> None then
              thenDo (valueOf customTypeRadio u) (\<lambda>customType.
                let config = setField (p @ ''_custom_type'') (JStr customType) config in
                if customType = ''ollama'' then
                  Inr (setField (p @ ''_custom_ollama_model'')
                        (JStr (valueOr (p @ ''-ollama-model-select'') [] u)) config)
                else
                  Inr (setField (p @ ''_custom_online_model'')
                        (JStr (valueOr (p @ ''-online-model-name'') [] u)) config))
            else Inr config
          else Inr config)
      else Inr config)"

definition globalApi :: "ui \<Rightarrow> string + obj" where
  "globalApi u =
     (let useOnlineApi = checkedOr ''use-online-api'' u;
          config = [(''use_online_api'', JBool useOnlineApi)] in
      if \<not> useOnlineApi then
        let config = setField ''ollama_api_url''
                       (JStr (valueOr ''ollama-api-url'' ''http://127.0.0.1:11434'' u)) config;
            ollamaModelSelect = getElementById ''ollama-model-select'' u in
        if ollamaModelSelect \<noteq> None then
          thenDo (valueOf ollamaModelSelect u) (\<lambda>v.
            Inr (setField ''selected_ollama_model'' (JStr v) config))
        else Inr config
      else
        Inr (setField ''online_api_model'' (JStr (valueOr ''online-model-name'' [] u))
              (setField ''online_api_key'' (JStr (valueOr ''online-api-key'' [] u))
                (setField ''online_api_url'' (JStr (valueOr ''online-api-url'' [] u)) config))))"

definition collectGlobalConfig :: "ui \<Rightarrow> string + obj" where
  "collectGlobalConfig u =
     thenDo (globalApi u) (\<lambda>config.
     thenDo (globalModel ''analysis'' u config) (\<lambda>config.
       globalModel ''writing'' u config))"

section \<open>Statements\<close>

text \<open>
  A statement takes the state and returns how it completed, with the state it left: an
  exception keeps every write made before it was thrown.
\<close>

datatype completion = Normal | Return | Throw string

type_synonym stmt = "ui \<Rightarrow> completion \<times> ui"

definition skip :: stmt where
  "skip u = (Normal, u)"

definition return :: stmt where
  "return u = (Return, u)"

fun block :: "stmt list \<Rightarrow> stmt" where
  "block [] u = (Normal, u)"
| "block (s # ss) u = (let (c, u') = s u in if c = Normal then block ss u' else (c, u'))"

definition forEach :: "'a list \<Rightarrow> ('a \<Rightarrow> stmt) \<Rightarrow> stmt" where
  "forEach xs f = block (map f xs)"

text \<open>A call of a function of the script: its \<^verbatim>\<open>return\<close> ends the function only.\<close>

definition call :: "stmt \<Rightarrow> stmt" where
  "call s u = (let (c, u') = s u in (if c = Return then Normal else c, u'))"

definition emit :: "effect \<Rightarrow> stmt" where
  "emit e u = (Normal, u\<lparr>trace := trace u @ [e]\<rparr>)"

text \<open>A write to properties of an element the handler holds.\<close>

definition assign :: "nat \<Rightarrow> (node \<Rightarrow> node) \<Rightarrow> stmt" where
  "assign a f u = (Normal, u\<lparr>store := (store u)(a := f (store u a))\<rparr>)"

definition setDisabled :: "nat \<Rightarrow> bool \<Rightarrow> stmt" where
  "setDisabled a b = assign a (\<lambda>n. n\<lparr>disabled := b\<rparr>)"

definition setText :: "nat \<Rightarrow> string \<Rightarrow> stmt" where
  "setText a s = assign a (\<lambda>n. n\<lparr>content := Text s\<rparr>)"

text \<open>
  \<^verbatim>\<open>a.innerHTML = s\<close> is kept as the string assigned: the elements that the parser makes
  of the markup are not added to the document. The markup the scripts write themselves
  makes \<^verbatim>\<open>strong\<close> and \<^verbatim>\<open>p\<close> elements without identifier, class or name, which no
  selector of the scripts finds. So the model is exact as long as the text put into that
  markup, which comes from the user or from the response, starts no tag of its own, that
  is as long as it has no \<^verbatim>\<open><\<close>; where a property depends on the elements of the
  document after such a write, it is stated for such text.
\<close>

definition setHtml :: "nat \<Rightarrow> string \<Rightarrow> stmt" where
  "setHtml a s = assign a (\<lambda>n. n\<lparr>content := Html s\<rparr>)"

definition plainText :: "string \<Rightarrow> bool" where
  "plainText s = (CHR ''<'' \<notin> set s)"

definition setDisplay :: "nat \<Rightarrow> string \<Rightarrow> stmt" where
  "setDisplay a s = assign a (\<lambda>n. n\<lparr>display := s\<rparr>)"

definition setVal :: "nat \<Rightarrow> string \<Rightarrow> stmt" where
  "setVal a s = assign a (\<lambda>n. n\<lparr>val := s\<rparr>)"

definition setClassName :: "nat \<Rightarrow> string list \<Rightarrow> stmt" where
  "setClassName a cs = assign a (\<lambda>n. n\<lparr>classList := cs\<rparr>)"

definition removeClass :: "string \<Rightarrow> node \<Rightarrow> node" where
  "removeClass c n = n\<lparr>classList := filter (\<lambda>x. x \<noteq> c) (classList n)\<rparr>"

definition addClass :: "string \<Rightarrow> node \<Rightarrow> node" where
  "addClass c n = n\<lparr>classList := (if c \<in> set (classList n) then classList n else classList n @ [c])\<rparr>"

text \<open>
  \<^verbatim>\<open>document.getElementById(i).\<close>\<open>\<dots>\<close>, throwing on \<^verbatim>\<open>null\<close>; the same for a reference
  that may be \<^verbatim>\<open>null\<close>; \<^verbatim>\<open>if (x) { \<close>\<open>\<dots>\<close>\<^verbatim>\<open> }\<close>; and a read that may throw.
\<close>

definition withElement :: "string \<Rightarrow> (nat \<Rightarrow> stmt) \<Rightarrow> stmt" where
  "withElement i k u = (case getElementById i u of None \<Rightarrow> (Throw typeError, u) | Some a \<Rightarrow> k a u)"

definition deref :: "nat option \<Rightarrow> (nat \<Rightarrow> stmt) \<Rightarrow> stmt" where
  "deref r k u = (case r of None \<Rightarrow> (Throw typeError, u) | Some a \<Rightarrow> k a u)"

definition whenSome :: "nat option \<Rightarrow> (nat \<Rightarrow> stmt) \<Rightarrow> stmt" where
  "whenSome r k u = (case r of None \<Rightarrow> (Normal, u) | Some a \<Rightarrow> k a u)"

definition tryValue :: "(ui \<Rightarrow> string + 'a) \<Rightarrow> ('a \<Rightarrow> stmt) \<Rightarrow> stmt" where
  "tryValue r k u = (case r u of Inl e \<Rightarrow> (Throw e, u) | Inr x \<Rightarrow> k x u)"

subsection \<open>The tree\<close>

definition blankNode :: "string \<Rightarrow> node" where
  "blankNode t = \<lparr>tag = t, ident = None, nameAttr = None, classList = [], dataAttrs = [],
     display = [], disabled = False, content = Text [], val = [], checked = False,
     files = [], parent = None\<rparr>"

definition createElement :: "string \<Rightarrow> (nat \<Rightarrow> stmt) \<Rightarrow> stmt" where
  "createElement t k u =
     k (fresh u) (u\<lparr>store := (store u)(fresh u := blankNode t), fresh := Suc (fresh u)\<rparr>)"

definition inSubtree :: "ui \<Rightarrow> nat \<Rightarrow> nat \<Rightarrow> bool" where
  "inSubtree u p b = (b = p \<or> p \<in> set (ancestorsOf u b))"

definition children :: "ui \<Rightarrow> nat \<Rightarrow> nat list" where
  "children u p = filter (\<lambda>b. parent (store u b) = Some p) (doc u)"

text \<open>
  \<^verbatim>\<open>p.appendChild(c)\<close> for an element \<open>c\<close> that was just created: it becomes the last child
  of \<open>p\<close>, so in document order it follows the last element of the subtree of \<open>p\<close>.
\<close>

definition appendChild :: "nat \<Rightarrow> nat \<Rightarrow> stmt" where
  "appendChild p c u =
     (let k = length (dropWhile (\<lambda>b. \<not> inSubtree u p b) (rev (doc u)))
      in (Normal, u\<lparr>store := (store u)(c := (store u c)\<lparr>parent := Some p\<rparr>),
                     doc := (if p \<in> set (doc u) then take k (doc u) @ [c] @ drop k (doc u)
                             else doc u)\<rparr>))"

text \<open>\<^verbatim>\<open>a.remove()\<close> takes the subtree of \<open>a\<close> out of the document.\<close>

definition removeNode :: "nat \<Rightarrow> stmt" where
  "removeNode a u =
     (Normal, u\<lparr>store := (store u)(a := (store u a)\<lparr>parent := None\<rparr>),
                doc := filter (\<lambda>b. \<not> inSubtree u a b) (doc u)\<rparr>)"

text \<open>\<^verbatim>\<open>a.innerHTML = ''\<close> takes everything below \<open>a\<close> out of the document.\<close>

definition clearChildren :: "nat \<Rightarrow> stmt" where
  "clearChildren a u =
     (Normal, u\<lparr>store := (store u)(a := (store u a)\<lparr>content := Html []\<rparr>),
                doc := filter (\<lambda>b. a \<notin> set (ancestorsOf u b)) (doc u)\<rparr>)"

text \<open>\<^verbatim>\<open>a.closest('.c')\<close>\<close>

definition closest :: "string \<Rightarrow> nat \<Rightarrow> ui \<Rightarrow> nat option" where
  "closest c a u = find (\<lambda>b. c \<in> set (classList (store u b))) (a # ancestorsOf u a)"

text \<open>\<^verbatim>\<open>querySelector('.model-info:nth-child(k) .model-value')\<close>\<close>

definition isNthChild :: "ui \<Rightarrow> nat \<Rightarrow> nat \<Rightarrow> bool" where
  "isNthChild u k a =
     (let sibs = filter (\<lambda>b. parent (store u b) = parent (store u a)) (doc u)
      in 1 \<le> k \<and> k \<le> length sibs \<and> sibs ! (k - 1) = a)"

definition modelValueDisplay :: "nat \<Rightarrow> ui \<Rightarrow> nat option" where
  "modelValueDisplay k u =
     find (\<lambda>a. ''model-value'' \<in> set (classList (store u a)) \<and>
               list_ex (\<lambda>b. ''model-info'' \<in> set (classList (store u b)) \<and> isNthChild u k b)
                 (ancestorsOf u a))
       (doc u)"

subsection \<open>Requests\<close>

text \<open>
  A response is the object its JSON body parses to: \<^verbatim>\<open>success\<close>, and the properties the
  handlers read, each of which may be missing. A request that fails, a body that is not
  JSON and a body that is not an object all reach the \<^verbatim>\<open>catch\<close> handler with an error
  value before any write; \<open>Rejected\<close> carries that value as the string it converts to.
\<close>

record reply =
  success :: bool
  error :: "string option"
  initial_narrative :: "string option"
  response :: "string option"
  models :: "string list option"

datatype outcome = Resolved reply | Rejected string

text \<open>
  \<^verbatim>\<open>.then(onThen).catch(onCatch).finally(onFinally)\<close>: an exception of \<open>onThen\<close> is caught by
  \<open>onCatch\<close>; \<open>onFinally\<close> runs in every case.
\<close>

definition settle :: "(reply \<Rightarrow> stmt) \<Rightarrow> (string \<Rightarrow> stmt) \<Rightarrow> stmt \<Rightarrow> outcome \<Rightarrow> stmt" where
  "settle onThen onCatch onFinally out u =
     (let (c1, u1) = (case out of Rejected e \<Rightarrow> (Throw e, u) | Resolved d \<Rightarrow> onThen d u);
          (c2, u2) = (case c1 of Throw e \<Rightarrow> onCatch e u1 | _ \<Rightarrow> (Normal, u1));
          (c3, u3) = onFinally u2
      in (case c3 of Throw e \<Rightarrow> (Throw e, u3)
          | _ \<Rightarrow> (case c2 of Throw e \<Rightarrow> (Throw e, u3) | _ \<Rightarrow> (Normal, u3))))"

section \<open>The handlers of main.js\<close>

text \<open>
  What the scripts capture when the page has loaded: the navigation items, the content
  sections, and three elements that may be missing.
\<close>

record env =
  navItems :: "nat list"
  contentSections :: "nat list"
  refreshModelsBtn :: "nat option"
  globalSaveButton :: "nat option"
  saveToast :: "nat option"

definition pageEnv :: "ui \<Rightarrow> env" where
  "pageEnv u = \<lparr>navItems = byClass ''nav-item'' u,
     contentSections = byClass ''content-section'' u,
     refreshModelsBtn = getElementById ''refresh-models-btn'' u,
     globalSaveButton = getElementById ''global-save-button'' u,
     saveToast = getElementById ''save-toast'' u\<rparr>"

subsection \<open>Refreshing the model lists (lines 144 to 212)\<close>

definition refreshOllamaModels :: "env \<Rightarrow> stmt" where
  "refreshOllamaModels e =
     tryValue (valueById ''ollama-api-url'') (\<lambda>ollamaApiUrl.
       if ollamaApiUrl = [] then block [emit (ConsoleLog msg_skip_refresh), return]
       else block [
         whenSome (refreshModelsBtn e) (\<lambda>b.
           block [setDisabled b True, setText b lbl_fetching_models]),
         emit (Fetch ''/api/refresh_ollama_models'' (Json [(''api_url'', JStr ollamaApiUrl)]))])"

text \<open>
  The list of a \<^verbatim>\<open>select\<close> is rebuilt from \<^verbatim>\<open>data.models\<close>. The value of a \<^verbatim>\<open>select\<close> is
  empty while it has no option and that of its first option once it has one.
\<close>

definition fillSelect :: "string \<Rightarrow> string list option \<Rightarrow> stmt" where
  "fillSelect i ms u =
     (case getElementById i u of
        None \<Rightarrow> (Normal, u)
      | Some sel \<Rightarrow>
          block [
            clearChildren sel, setVal sel [],
            (case ms of
               None \<Rightarrow> (\<lambda>u. (Throw typeError, u))
             | Some ms \<Rightarrow> forEach ms (\<lambda>model.
                 createElement ''option'' (\<lambda>option. block [
                   setVal option model, setText option model, appendChild sel option,
                   (\<lambda>u. if children u sel = [option] then setVal sel model u else (Normal, u))])))
          ] u)"

definition refreshThen :: "reply \<Rightarrow> stmt" where
  "refreshThen data =
     (if success data then block [
        fillSelect ''analysis-ollama-model-select'' (models data),
        fillSelect ''writing-ollama-model-select'' (models data),
        emit (ConsoleLog msg_models_updated)]
      else emit (ConsoleError msg_models_failed (strU (error data))))"

definition refreshSettle :: "env \<Rightarrow> outcome \<Rightarrow> stmt" where
  "refreshSettle e =
     settle refreshThen (\<lambda>err. emit (ConsoleError msg_models_error err))
       (whenSome (refreshModelsBtn e) (\<lambda>b.
          block [setDisabled b False, setText b lbl_refresh_models]))"

subsection \<open>Navigation (lines 7 to 26)\<close>

definition navMainClick :: "env \<Rightarrow> nat \<Rightarrow> stmt" where
  "navMainClick e this u =
     (let sectionId = getAttribute ''data-section'' (store u this) in
      block [
        forEach (navItems e) (\<lambda>nav. assign nav (removeClass ''active'')),
        assign this (addClass ''active''),
        forEach (contentSections e) (\<lambda>section. setDisplay section ''none''),
        withElement (strN sectionId @ ''-section'') (\<lambda>s. setDisplay s ''block''),
        (if sectionId = Some ''api-config'' then call (refreshOllamaModels e) else skip)
      ] u)"

subsection \<open>The configuration form (lines 226 to 312)\<close>

definition updateModelDisplay :: "obj \<Rightarrow> stmt" where
  "updateModelDisplay config u =
     block [
       whenSome (modelValueDisplay 1 u) (\<lambda>d.
         assign d (\<lambda>n. n\<lparr>content := (case map_of config ''analysis_model_name'' of
                                          Some (JStr s) \<Rightarrow> Text s | _ \<Rightarrow> Text [])\<rparr>)),
       whenSome (modelValueDisplay 2 u) (\<lambda>d.
         assign d (\<lambda>n. n\<lparr>content := (case map_of config ''writing_model_name'' of
                                          Some (JStr s) \<Rightarrow> Text s | _ \<Rightarrow> Text [])\<rparr>))
     ] u"


definition configSettle :: "obj \<Rightarrow> outcome \<Rightarrow> stmt" where
  "configSettle config =
     settle
       (\<lambda>data. if success data then block [updateModelDisplay config, emit (Alert msg_config_saved)]
                else emit (Alert (msg_config_failed @ strU (error data))))
       (\<lambda>err. emit (Alert (msg_config_error @ err)))
       skip"

subsection \<open>The API test (lines 318 to 361)\<close>


definition testApiSettle :: "nat \<Rightarrow> nat \<Rightarrow> outcome \<Rightarrow> stmt" where
  "testApiSettle this testResult =
     settle
       (\<lambda>data. if success data then setText testResult (msg_test_ok @ strU (response data))
                else setText testResult (msg_test_failed @ strU (error data)))
       (\<lambda>err. setText testResult (msg_test_error @ err))
       (block [setDisabled this False, setText this lbl_test_connection])"

subsection \<open>The settings form and the reset button (lines 394 to 451)\<close>


definition settingsSettle :: "outcome \<Rightarrow> stmt" where
  "settingsSettle =
     settle
       (\<lambda>data. if success data then emit (Alert msg_settings_saved)
                else emit (Alert msg_settings_failed))
       (\<lambda>err. emit (Alert (msg_settings_error @ err)))
       skip"


definition resetSettle :: "outcome \<Rightarrow> stmt" where
  "resetSettle =
     settle
       (\<lambda>data. if success data then block [emit (Alert msg_reset_done), emit Reload]
                else emit (Alert msg_reset_failed))
       (\<lambda>err. emit (Alert (msg_reset_error @ err)))
       skip"

subsection \<open>The upload form (lines 457 to 505)\<close>

text \<open>\<^verbatim>\<open>name.endsWith(s)\<close>\<close>

definition endsWith :: "string \<Rightarrow> string \<Rightarrow> bool" where
  "endsWith s name = (length s \<le> length name \<and> drop (length name - length s) name = s)"

definition uploadSubmit :: stmt where
  "uploadSubmit =
     withElement ''novel-file'' (\<lambda>f u.
       let novelFile = (case files (store u f) of [] \<Rightarrow> None | x # _ \<Rightarrow> Some x) in
       tryValue (valueById ''novel-title'') (\<lambda>novelTitle.
         case novelFile of
           None \<Rightarrow> block [emit (Alert msg_choose_file), return]
         | Some name \<Rightarrow>
             if \<not> endsWith ''.txt'' name then block [emit (Alert msg_txt_only), return]
             else block [
               withElement ''processing-card'' (\<lambda>p. setDisplay p ''flex''),
               emit (Fetch ''/upload_novel''
                 (FormData [(''novel_file'', JFile name), (''novel_title'', JStr novelTitle)]))]) u)"

definition uploadSettle :: "outcome \<Rightarrow> stmt" where
  "uploadSettle =
     settle
       (\<lambda>data. if success data then block [
                  withElement ''processing-card'' (\<lambda>p. setDisplay p ''none''),
                  withElement ''initializing-narrative-card'' (\<lambda>c. setDisplay c ''flex'')]
                else block [
                  withElement ''processing-card'' (\<lambda>p. setDisplay p ''none''),
                  emit (Alert (msg_upload_failed @ strU (error data)))])
       (\<lambda>err. block [
          withElement ''processing-card'' (\<lambda>p. setDisplay p ''none''),
          emit (Alert (msg_upload_error @ err))])
       skip"

subsection \<open>The narrative (lines 512 to 649)\<close>

text \<open>
  The markup of a transcript entry, as the template literals build it. The handlers also
  scroll the transcript to its end; the scroll position is layout and is not part of the
  state.
\<close>

definition entryHtml :: "string \<Rightarrow> string \<Rightarrow> string" where
  "entryHtml speaker s = ''<strong>'' @ speaker @ '':</strong><p>'' @ s @ ''</p>''"

definition startNarrativeClick :: "nat \<Rightarrow> stmt" where
  "startNarrativeClick this =
     block [setDisabled this True, setText this lbl_initializing,
            emit (Fetch ''/start_narrative'' NoBody)]"

definition startNarrativeThen :: "nat \<Rightarrow> reply \<Rightarrow> stmt" where
  "startNarrativeThen this data =
     (if success data then block [
        withElement ''initializing-narrative-card'' (\<lambda>c. setDisplay c ''none''),
        withElement ''narrative-card'' (\<lambda>c. setDisplay c ''flex''),
        (\<lambda>u. let narrativeHistory = getElementById ''narrative-history'' u in
           createElement ''div'' (\<lambda>messageContainer. block [
             setClassName messageContainer [''message-container'', ''ai-message''],
             setHtml messageContainer (entryHtml speaker_system (strU (initial_narrative data))),
             deref narrativeHistory (\<lambda>h. appendChild h messageContainer)]) u)]
      else block [
        emit (Alert (msg_start_failed @ strU (error data))),
        setDisabled this False, setText this lbl_start_journey])"

definition startNarrativeSettle :: "nat \<Rightarrow> outcome \<Rightarrow> stmt" where
  "startNarrativeSettle this =
     settle (startNarrativeThen this)
       (\<lambda>err. block [emit (Alert (msg_start_error @ err)),
                      setDisabled this False, setText this lbl_start_journey])
       skip"

definition sendActionClick :: "nat \<Rightarrow> stmt" where
  "sendActionClick this =
     tryValue (valueById ''user-action'') (\<lambda>userAction.
       if userAction = [] then block [emit (Alert msg_enter_action), return]
       else block [
         setDisabled this True, setText this lbl_processing,
         (\<lambda>u. let narrativeHistory = getElementById ''narrative-history'' u in
            createElement ''div'' (\<lambda>userMessageContainer. block [
              setClassName userMessageContainer [''message-container'', ''user-message''],
              setHtml userMessageContainer (entryHtml speaker_user userAction),
              deref narrativeHistory (\<lambda>h. appendChild h userMessageContainer)]) u),
         withElement ''user-action'' (\<lambda>a. setVal a []),
         emit (Fetch ''/process_action'' (Json [(''action'', JStr userAction)]))])"

text \<open>
  The handlers of the response use the \<^verbatim>\<open>narrativeHistory\<close> the click handler looked up;
  a request is only issued when it was found.
\<close>

definition sendActionThen :: "nat \<Rightarrow> reply \<Rightarrow> stmt" where
  "sendActionThen narrativeHistory data =
     (if success data then
        createElement ''div'' (\<lambda>aiMessageContainer. block [
          setClassName aiMessageContainer [''message-container'', ''ai-message''],
          setHtml aiMessageContainer (entryHtml speaker_system (strU (response data))),
          appendChild narrativeHistory aiMessageContainer])
      else emit (Alert (msg_action_failed @ strU (error data))))"

definition sendActionSettle :: "nat \<Rightarrow> nat \<Rightarrow> outcome \<Rightarrow> stmt" where
  "sendActionSettle this narrativeHistory =
     settle (sendActionThen narrativeHistory)
       (\<lambda>err. emit (Alert (msg_action_error @ err)))
       (block [setDisabled this False, setText this lbl_send])"


definition saveGameSettle :: "nat \<Rightarrow> outcome \<Rightarrow> stmt" where
  "saveGameSettle this =
     settle
       (\<lambda>data. if success data then emit (Alert msg_game_saved)
                else emit (Alert (msg_save_failed @ strU (error data))))
       (\<lambda>err. emit (Alert (msg_save_error @ err)))
       (block [setDisabled this False, setText this lbl_save_game])"

section \<open>The floating save button\<close>

text \<open>
  The second listener of a navigation item, registered when the button exists (lines 18
  to 28 of \<^verbatim>\<open>floating-save-button.js\<close>); \<open>g\<close> is the button.
\<close>

definition navFloatingClick :: "nat \<Rightarrow> nat \<Rightarrow> stmt" where
  "navFloatingClick g this u =
     (let sectionId = getAttribute ''data-section'' (store u this) in
      if sectionId = Some ''api-config'' then setDisplay g ''flex'' u
      else setDisplay g ''none'' u)"

text \<open>
  A click on a navigation item runs its listeners in the order they were registered:
  that of \<^verbatim>\<open>main.js\<close>, then that of the floating button. An exception of a listener is
  reported and does not keep the next one from running.
\<close>

definition navClick :: "env \<Rightarrow> nat \<Rightarrow> stmt" where
  "navClick e this u =
     (let (c1, u1) = navMainClick e this u;
          (c2, u2) = (case globalSaveButton e of
                        None \<Rightarrow> (Normal, u1)
                      | Some g \<Rightarrow> navFloatingClick g this u1)
      in (Normal, u2))"

text \<open>The button's own listener (lines 31 to 70) and the functions it calls.\<close>

definition showSaveToast :: "env \<Rightarrow> stmt" where
  "showSaveToast e =
     block [deref (saveToast e) (\<lambda>t. assign t (addClass ''show'')),
            emit (SetTimeout 3000 ''hideSaveToast'')]"

definition hideSaveToast :: "env \<Rightarrow> stmt" where
  "hideSaveToast e = deref (saveToast e) (\<lambda>t. assign t (removeClass ''show''))"

definition globalSaveClick :: "nat \<Rightarrow> stmt" where
  "globalSaveClick g u =
     (if ''saving'' \<in> set (classList (store u g)) then return u
      else block [
        assign g (addClass ''saving''),
        tryValue collectGlobalConfig (\<lambda>config.
          emit (Fetch ''/api/update_api_config'' (Json config)))] u)"

definition globalSaveSettle :: "env \<Rightarrow> nat \<Rightarrow> obj \<Rightarrow> outcome \<Rightarrow> stmt" where
  "globalSaveSettle e g config =
     settle
       (\<lambda>data. if success data then block [call (updateModelDisplay config), call (showSaveToast e)]
                else emit (Alert (msg_global_failed @ strU (error data))))
       (\<lambda>err. emit (Alert (msg_global_error @ err)))
       (assign g (removeClass ''saving''))"

section \<open>The history list (main.js, lines 662 to 763)\<close>

text \<open>\<^verbatim>\<open>querySelector('.nav-item[data-section="home"]')\<close>\<close>

definition homeNavItem :: "ui \<Rightarrow> nat option" where
  "homeNavItem u =
     find (\<lambda>a. ''nav-item'' \<in> set (classList (store u a)) \<and>
               getAttribute ''data-section'' (store u a) = Some ''home'') (doc u)"

text \<open>\<^verbatim>\<open>a.click()\<close>: the listeners of \<open>a\<close> run before the call returns.\<close>

definition clickElement :: "env \<Rightarrow> nat \<Rightarrow> stmt" where
  "clickElement e a = (if a \<in> set (navItems e) then navClick e a else skip)"


definition loadChatSettle :: "env \<Rightarrow> nat \<Rightarrow> outcome \<Rightarrow> stmt" where
  "loadChatSettle e this =
     settle
       (\<lambda>data. if success data then block [
                  (\<lambda>u. deref (homeNavItem u) (clickElement e) u),
                  withElement ''initializing-narrative-card'' (\<lambda>c. setDisplay c ''flex'')]
                else emit (Alert (msg_load_failed @ strU (error data))))
       (\<lambda>err. emit (Alert (msg_load_error @ err)))
       (block [setDisabled this False, setText this lbl_load])"


definition deleteChatThen :: "nat \<Rightarrow> reply \<Rightarrow> stmt" where
  "deleteChatThen this data =
     (if success data then block [
        (\<lambda>u. whenSome (closest ''chat-history-item'' this u) removeNode u),
        (\<lambda>u. if byClass ''chat-history-item'' u = [] then
               createElement ''div'' (\<lambda>emptyState. block [
                 setClassName emptyState [''empty-state''],
                 setHtml emptyState html_no_history,
                 (\<lambda>u. deref (case byClass ''chat-history-list'' u of [] \<Rightarrow> None | l # _ \<Rightarrow> Some l)
                         (\<lambda>l. appendChild l emptyState) u)]) u
             else (Normal, u))]
      else emit (Alert (msg_delete_failed @ strU (error data))))"

definition deleteChatSettle :: "nat \<Rightarrow> outcome \<Rightarrow> stmt" where
  "deleteChatSettle this =
     settle (deleteChatThen this)
       (\<lambda>err. emit (Alert (msg_delete_error @ err)))
       (block [setDisabled this False, setText this lbl_delete])"

section \<open>The page\<close>

text \<open>
  The document \<^verbatim>\<open>templates/index.html\<close> renders, for a server in the stage
  \<^verbatim>\<open>initializing_narrative\<close> that uses the local API, has \<^verbatim>\<open>llama3\<close> for both models,
  knows the Ollama models \<^verbatim>\<open>llama3\<close> and \<^verbatim>\<open>mistral\<close> and lists one earlier conversation.
  The value holds every element of the template that has an id or a name, or a class the
  scripts select by, and the elements between them that carry a layout class; the parent
  of an element is the nearest element above it that the value holds. Elements are
  numbered in document order.
\<close>

definition el :: "string \<Rightarrow> string \<Rightarrow> string list \<Rightarrow> nat option \<Rightarrow> node" where
  "el t i cs p =
     (blankNode t)\<lparr>ident := (if i = [] then None else Some i), classList := cs, parent := p\<rparr>"

definition indexNodes :: "node list" where
  "indexNodes = [
     el ''div'' [] [''container''] None,
     el ''div'' [] [''sidebar''] (Some 0),
     (el ''div'' [] [''nav-item'', ''active''] (Some 1))\<lparr>dataAttrs := [(''data-section'',
       ''home'')]\<rparr>,
     (el ''div'' [] [''nav-item''] (Some 1))\<lparr>dataAttrs := [(''data-section'',
       ''chat'')]\<rparr>,
     (el ''div'' [] [''nav-item''] (Some 1))\<lparr>dataAttrs := [(''data-section'',
       ''api-config'')]\<rparr>,
     (el ''div'' [] [''nav-item''] (Some 1))\<lparr>dataAttrs := [(''data-section'',
       ''settings'')]\<rparr>,
     el ''div'' [] [''main-content''] (Some 0),
     el ''div'' ''home-section'' [''content-section''] (Some 6),
     (el ''div'' ''dashboard-view'' [''dashboard-view''] (Some 7))\<lparr>display :=
       ''block''\<rparr>,
     el ''div'' ''novel-config-card'' [''dashboard-card'', ''upload-card''] (Some 8),
     el ''form'' ''novel-upload-form'' [] (Some 9),
     el ''input'' ''novel-file'' [''file-upload-input''] (Some 10),
     el ''div'' ''file-name-display'' [''file-name''] (Some 10),
     el ''input'' ''novel-title'' [''form-control''] (Some 10),
     el ''div'' [] [''form-group'', ''model-display''] (Some 10),
     el ''div'' [] [''model-info''] (Some 14),
     el ''span'' [] [''model-label''] (Some 15),
     (el ''span'' [] [''model-value''] (Some 15))\<lparr>content := Text ''llama3''\<rparr>,
     el ''div'' [] [''model-info''] (Some 14),
     el ''span'' [] [''model-label''] (Some 18),
     (el ''span'' [] [''model-value''] (Some 18))\<lparr>content := Text ''llama3''\<rparr>,
     el ''div'' [] [''model-tip''] (Some 14),
     el ''button'' [] [''btn'', ''btn-primary''] (Some 10),
     (el ''div'' ''narrative-view'' [''narrative-view''] (Some 7))\<lparr>display :=
       ''none''\<rparr>,
     el ''div'' ''narrative-history'' [''narrative-history''] (Some 23),
     el ''textarea'' ''user-action'' [''form-control''] (Some 23),
     (el ''button'' ''send-action-btn'' [''btn'', ''btn-primary''] (Some 23))\<lparr>content :=
       Text lbl_send\<rparr>,
     (el ''button'' ''save-game-btn'' [''btn''] (Some 23))\<lparr>content := Text
       lbl_save_game\<rparr>,
     el ''button'' ''close-narrative-btn'' [''btn''] (Some 23),
     (el ''div'' ''processing-card'' [''processing-overlay''] (Some 7))\<lparr>display :=
       ''none''\<rparr>,
     el ''div'' ''analysis-progress'' [''progress-bar''] (Some 29),
     el ''p'' ''analysis-status'' [] (Some 29),
     (el ''div'' ''initializing-narrative-card'' [''processing-overlay''] (Some 7))\<lparr>display
       := ''flex''\<rparr>,
     (el ''button'' ''start-narrative-btn'' [''btn'', ''btn-primary''] (Some 32))\<lparr>content
       := Text lbl_start_journey\<rparr>,
     (el ''div'' ''chat-section'' [''content-section''] (Some 6))\<lparr>display :=
       ''none''\<rparr>,
     el ''div'' [] [''chat-history-list''] (Some 34),
     (el ''div'' [] [''chat-history-item''] (Some 35))\<lparr>dataAttrs := [(''data-path'',
       ''history/1.json'')]\<rparr>,
     (el ''button'' [] [''btn'', ''btn-small'', ''load-chat-btn''] (Some 36))\<lparr>dataAttrs :=
       [(''data-path'', ''history/1.json'')], content := Text lbl_load\<rparr>,
     (el ''button'' [] [''btn'', ''btn-small'', ''delete-chat-btn''] (Some 36))\<lparr>dataAttrs
       := [(''data-path'', ''history/1.json'')], content := Text lbl_delete\<rparr>,
     (el ''div'' ''api-config-section'' [''content-section''] (Some 6))\<lparr>display :=
       ''none''\<rparr>,
     el ''form'' ''api-config-form'' [] (Some 39),
     el ''div'' ''local-api-option'' [''api-type-option''] (Some 40),
     (el ''input'' ''use-local-api'' [] (Some 41))\<lparr>nameAttr := Some ''api-type'', val :=
       ''local'', checked := True\<rparr>,
     el ''div'' ''online-api-option'' [''api-type-option''] (Some 40),
     (el ''input'' ''use-online-api'' [] (Some 43))\<lparr>nameAttr := Some ''api-type'', val :=
       ''online''\<rparr>,
     (el ''div'' ''ollama-api-config'' [] (Some 40))\<lparr>display := ''block''\<rparr>,
     (el ''input'' ''ollama-api-url'' [''form-control''] (Some 45))\<lparr>val :=
       ''http://127.0.0.1:11434''\<rparr>,
     (el ''div'' ''online-api-config'' [] (Some 40))\<lparr>display := ''none''\<rparr>,
     el ''input'' ''online-api-url'' [''form-control''] (Some 47),
     el ''input'' ''online-api-key'' [''form-control''] (Some 47),
     (el ''input'' ''analysis-llama3'' [] (Some 39))\<lparr>nameAttr := Some ''analysis-model'',
       val := ''llama3'', checked := True\<rparr>,
     (el ''input'' ''analysis-mistral'' [] (Some 39))\<lparr>nameAttr := Some ''analysis-model'',
       val := ''mistral''\<rparr>,
     (el ''input'' ''analysis-custom'' [] (Some 39))\<lparr>nameAttr := Some ''analysis-model'',
       val := ''custom''\<rparr>,
     (el ''div'' ''analysis-custom-settings'' [''custom-model-settings''] (Some
       39))\<lparr>display := ''none''\<rparr>,
     (el ''input'' ''analysis-custom-ollama'' [] (Some 53))\<lparr>nameAttr := Some
       ''analysis-custom-type'', val := ''ollama'', checked := True\<rparr>,
     (el ''input'' ''analysis-custom-online'' [] (Some 53))\<lparr>nameAttr := Some
       ''analysis-custom-type'', val := ''online''\<rparr>,
     (el ''div'' ''analysis-custom-ollama-settings'' [] (Some 53))\<lparr>display :=
       ''block''\<rparr>,
     (el ''select'' ''analysis-ollama-model-select'' [''form-control''] (Some 56))\<lparr>val :=
       ''llama3''\<rparr>,
     (el ''option'' [] [] (Some 57))\<lparr>content := Text ''llama3'', val := ''llama3''\<rparr>,
     (el ''option'' [] [] (Some 57))\<lparr>content := Text ''mistral'', val := ''mistral''\<rparr>,
     (el ''div'' ''analysis-custom-online-settings'' [] (Some 53))\<lparr>display :=
       ''none''\<rparr>,
     el ''input'' ''analysis-online-model-name'' [''form-control''] (Some 60),
     (el ''input'' ''writing-llama3'' [] (Some 39))\<lparr>nameAttr := Some ''writing-model'', val
       := ''llama3'', checked := True\<rparr>,
     (el ''input'' ''writing-mistral'' [] (Some 39))\<lparr>nameAttr := Some ''writing-model'',
       val := ''mistral''\<rparr>,
     (el ''input'' ''writing-custom'' [] (Some 39))\<lparr>nameAttr := Some ''writing-model'', val
       := ''custom''\<rparr>,
     (el ''div'' ''writing-custom-settings'' [''custom-model-settings''] (Some 39))\<lparr>display
       := ''none''\<rparr>,
     (el ''input'' ''writing-custom-ollama'' [] (Some 65))\<lparr>nameAttr := Some
       ''writing-custom-type'', val := ''ollama'', checked := True\<rparr>,
     (el ''input'' ''writing-custom-online'' [] (Some 65))\<lparr>nameAttr := Some
       ''writing-custom-type'', val := ''online''\<rparr>,
     (el ''div'' ''writing-custom-ollama-settings'' [] (Some 65))\<lparr>display :=
       ''block''\<rparr>,
     (el ''select'' ''writing-ollama-model-select'' [''form-control''] (Some 68))\<lparr>val :=
       ''llama3''\<rparr>,
     (el ''option'' [] [] (Some 69))\<lparr>content := Text ''llama3'', val := ''llama3''\<rparr>,
     (el ''option'' [] [] (Some 69))\<lparr>content := Text ''mistral'', val := ''mistral''\<rparr>,
     (el ''div'' ''writing-custom-online-settings'' [] (Some 65))\<lparr>display :=
       ''none''\<rparr>,
     el ''input'' ''writing-online-model-name'' [''form-control''] (Some 72),
     (el ''button'' ''refresh-models-btn'' [''btn'', ''btn-primary''] (Some 39))\<lparr>content :=
       Text lbl_refresh_models\<rparr>,
     (el ''div'' ''refresh-models-status'' [''status-message''] (Some 39))\<lparr>display :=
       ''none''\<rparr>,
     el ''input'' ''test-message'' [''form-control''] (Some 39),
     (el ''button'' ''test-api-btn'' [''btn'', ''btn-primary''] (Some 39))\<lparr>content := Text
       lbl_test_connection\<rparr>,
     (el ''div'' ''test-result'' [''test-result''] (Some 39))\<lparr>display := ''none''\<rparr>,
     (el ''div'' ''settings-section'' [''content-section''] (Some 6))\<lparr>display :=
       ''none''\<rparr>,
     el ''form'' ''settings-form'' [] (Some 79),
     (el ''span'' ''temperature-value'' [] (Some 80))\<lparr>content := Text ''0.7''\<rparr>,
     (el ''input'' ''temperature'' [''form-range''] (Some 80))\<lparr>val := ''0.7''\<rparr>,
     (el ''span'' ''top-p-value'' [] (Some 80))\<lparr>content := Text ''0.9''\<rparr>,
     (el ''input'' ''top-p'' [''form-range''] (Some 80))\<lparr>val := ''0.9''\<rparr>,
     (el ''input'' ''max-tokens'' [''form-control''] (Some 80))\<lparr>val := ''1024''\<rparr>,
     (el ''input'' ''show-typing-animation'' [] (Some 80))\<lparr>checked := True\<rparr>,
     (el ''span'' ''typing-speed-value'' [] (Some 80))\<lparr>content := Text ''5''\<rparr>,
     (el ''input'' ''typing-speed'' [''form-range''] (Some 80))\<lparr>val := ''5''\<rparr>,
     (el ''input'' ''enable-keyboard-shortcuts'' [] (Some 80))\<lparr>checked := True\<rparr>,
     el ''button'' [] [''btn'', ''btn-primary''] (Some 80),
     el ''button'' ''reset-app-btn'' [''btn'', ''btn-danger''] (Some 79),
     el ''div'' ''global-save-button'' [''floating-save-button''] (Some 0),
     el ''div'' ''save-toast'' [''save-toast''] (Some 0)]"

text \<open>The first position in a list, counted from \<open>k\<close>, whose element satisfies \<open>P\<close>.\<close>

fun firstAt :: "('a \<Rightarrow> bool) \<Rightarrow> nat \<Rightarrow> 'a list \<Rightarrow> nat option" where
  "firstAt P k [] = None"
| "firstAt P k (x # xs) = (if P x then Some k else firstAt P (k + 1) xs)"

text \<open>All positions in a list, counted from \<open>k\<close>, whose element satisfies \<open>P\<close>.\<close>

fun allAt :: "('a \<Rightarrow> bool) \<Rightarrow> nat \<Rightarrow> 'a list \<Rightarrow> nat list" where
  "allAt P k [] = []"
| "allAt P k (x # xs) = (if P x then k # allAt P (k + 1) xs else allAt P (k + 1) xs)"

definition pageOf :: "node list \<Rightarrow> ui" where
  "pageOf ns =
     \<lparr>store = (\<lambda>a. if a < length ns then ns ! a else blankNode []),
      doc = [0..<length ns], fresh = length ns, trace = []\<rparr>"

definition indexPage :: ui where
  "indexPage = pageOf indexNodes"

text \<open>
  An excerpt of that page, for evaluating the handlers: two navigation items with their
  sections, the inputs of the configuration the collectors read, the floating button and
  its toast, the upload inputs, the narrative view, one earlier conversation with its
  buttons, and the controls of the model list and the API test. Here the writing model is
  a custom online model, an action is typed into the narrative view and a message into
  the API test.
\<close>

definition miniNodes :: "node list" where
  "miniNodes = [
     (el ''div'' [] [''nav-item'', ''active''] None)\<lparr>dataAttrs := [(''data-section'', ''home'')]\<rparr>,
     (el ''div'' [] [''nav-item''] None)\<lparr>dataAttrs := [(''data-section'', ''api-config'')]\<rparr>,
     el ''div'' ''home-section'' [''content-section''] None,
     (el ''div'' ''api-config-section'' [''content-section''] None)\<lparr>display := ''none''\<rparr>,
     (el ''input'' ''use-online-api'' [] (Some 3))\<lparr>nameAttr := Some ''api-type'', val := ''online''\<rparr>,
     (el ''input'' ''ollama-api-url'' [''form-control''] (Some 3))\<lparr>val := ''http://127.0.0.1:11434''\<rparr>,
     (el ''input'' ''analysis-llama3'' [] (Some 3))\<lparr>nameAttr := Some ''analysis-model'',
       val := ''llama3'', checked := True\<rparr>,
     (el ''input'' ''writing-custom'' [] (Some 3))\<lparr>nameAttr := Some ''writing-model'',
       val := ''custom'', checked := True\<rparr>,
     (el ''input'' ''writing-custom-online'' [] (Some 3))\<lparr>nameAttr := Some ''writing-custom-type'',
       val := ''online'', checked := True\<rparr>,
     (el ''input'' ''writing-online-model-name'' [''form-control''] (Some 3))\<lparr>val := ''gpt-4-turbo''\<rparr>,
     el ''div'' ''global-save-button'' [''floating-save-button''] None,
     el ''div'' ''save-toast'' [''save-toast''] None,
     el ''input'' ''novel-file'' [''file-upload-input''] (Some 2),
     el ''input'' ''novel-title'' [''form-control''] (Some 2),
     (el ''div'' ''processing-card'' [''processing-overlay''] (Some 2))\<lparr>display := ''none''\<rparr>,
     (el ''div'' ''initializing-narrative-card'' [''processing-overlay''] (Some 2))\<lparr>display := ''flex''\<rparr>,
     (el ''button'' ''start-narrative-btn'' [''btn'', ''btn-primary''] (Some 15))\<lparr>content :=
       Text lbl_start_journey\<rparr>,
     el ''div'' ''narrative-history'' [''narrative-history''] (Some 2),
     (el ''textarea'' ''user-action'' [''form-control''] (Some 2))\<lparr>val := ''look around''\<rparr>,
     (el ''button'' ''send-action-btn'' [''btn'', ''btn-primary''] (Some 2))\<lparr>content := Text lbl_send\<rparr>,
     (el ''button'' ''save-game-btn'' [''btn''] (Some 2))\<lparr>content := Text lbl_save_game\<rparr>,
     el ''div'' [] [''chat-history-list''] None,
     (el ''div'' [] [''chat-history-item''] (Some 21))\<lparr>dataAttrs := [(''data-path'', ''history/1.json'')]\<rparr>,
     (el ''button'' [] [''btn'', ''btn-small'', ''load-chat-btn''] (Some 22))\<lparr>dataAttrs :=
       [(''data-path'', ''history/1.json'')], content := Text lbl_load\<rparr>,
     (el ''button'' [] [''btn'', ''btn-small'', ''delete-chat-btn''] (Some 22))\<lparr>dataAttrs :=
       [(''data-path'', ''history/1.json'')], content := Text lbl_delete\<rparr>,
     (el ''button'' ''refresh-models-btn'' [''btn'', ''btn-primary''] (Some 3))\<lparr>content :=
       Text lbl_refresh_models\<rparr>,
     (el ''input'' ''test-message'' [''form-control''] (Some 3))\<lparr>val := ''hello''\<rparr>,
     (el ''button'' ''test-api-btn'' [''btn'', ''btn-primary''] (Some 3))\<lparr>content :=
       Text lbl_test_connection\<rparr>,
     (el ''div'' ''test-result'' [''test-result''] (Some 3))\<lparr>display := ''none''\<rparr>]"

definition miniPage :: ui where
  "miniPage = pageOf miniNodes"

text \<open>The same page with the file \<open>n\<close> chosen in the upload form.\<close>

definition miniPageWithFile :: "string \<Rightarrow> ui" where
  "miniPageWithFile n = pageOf (miniNodes[12 := (miniNodes ! 12)\<lparr>files := [n]\<rparr>])"

section \<open>Predicates on drafts\<close>

text \<open>
  The fields of a draft that belong to the API part, and to the model part for the prefix
  \<open>p\<close> (\<^verbatim>\<open>analysis\<close> or \<^verbatim>\<open>writing\<close>).
\<close>

definition apiKeys :: "string list" where
  "apiKeys = [''use_online_api'', ''ollama_api_url'', ''selected_ollama_model'',
     ''online_api_url'', ''online_api_key'', ''online_api_model'']"

definition modelKeys :: "string \<Rightarrow> string list" where
  "modelKeys p = [p @ ''_model_name'', p @ ''_custom_type'', p @ ''_custom_ollama_model'',
     p @ ''_custom_online_model'']"

text \<open>
  The API part of a draft \<open>c\<close> collected from \<open>u\<close> follows the flag \<^verbatim>\<open>use_online_api\<close>: the
  Ollama address is there exactly when the flag is false, the selected Ollama model exactly
  when the flag is false and the document has the element \<^verbatim>\<open>ollama-model-select\<close>, and the
  three online fields exactly when the flag is true.
\<close>

definition apiBranch :: "ui \<Rightarrow> obj \<Rightarrow> bool" where
  "apiBranch u c =
     (\<exists>b. map_of c ''use_online_api'' = Some (JBool b) \<and>
        hasField ''ollama_api_url'' c = (\<not> b) \<and>
        hasField ''selected_ollama_model'' c =
          (\<not> b \<and> getElementById ''ollama-model-select'' u \<noteq> None) \<and>
        hasField ''online_api_url'' c = b \<and>
        hasField ''online_api_key'' c = b \<and>
        hasField ''online_api_model'' c = b)"



definition emptyPage :: ui where
  "emptyPage = pageOf []"

definition onlineNodes :: "node list" where
  "onlineNodes = [
     (el ''input'' ''use-online-api'' [] None)\<lparr>nameAttr := Some ''api-type'', val := ''online'',
       checked := True\<rparr>,
     (el ''input'' ''analysis-custom'' [] None)\<lparr>nameAttr := Some ''analysis-model'',
       val := ''custom'', checked := True\<rparr>,
     (el ''input'' ''analysis-custom-ollama'' [] None)\<lparr>nameAttr := Some ''analysis-custom-type'',
       val := ''ollama'', checked := True\<rparr>,
     (el ''input'' ''writing-custom'' [] None)\<lparr>nameAttr := Some ''writing-model'',
       val := ''custom'', checked := True\<rparr>,
     (el ''input'' ''writing-custom-online'' [] None)\<lparr>nameAttr := Some ''writing-custom-type'',
       val := ''online'', checked := True\<rparr>]"

definition onlinePage :: ui where
  "onlinePage = pageOf onlineNodes"

definition onlineDraft :: obj where
  "onlineDraft = [(''use_online_api'', JBool True),
     (''online_api_url'', JStr []),
     (''online_api_key'', JStr []),
     (''online_api_model'', JStr []),
     (''analysis_model_name'', JStr ''custom''),
     (''analysis_custom_type'', JStr ''ollama''),
     (''analysis_custom_ollama_model'', JStr []),
     (''writing_model_name'', JStr ''custom''),
     (''writing_custom_type'', JStr ''online''),
     (''writing_custom_online_model'', JStr [])]"

section \<open>Failed requests\<close>

text \<open>
  A request fails when it is rejected or when its response has \<^verbatim>\<open>success: false\<close>. The
  text shown for a failure is the handler's prefix for that kind of failure, followed by
  \<^verbatim>\<open>data.error\<close> or by the error value. \<open>restore\<close> is the state with a control enabled
  again under a label.
\<close>

definition failure :: "outcome \<Rightarrow> bool" where
  "failure out = (case out of Rejected e \<Rightarrow> True | Resolved d \<Rightarrow> \<not> success d)"

definition failText :: "string \<Rightarrow> string \<Rightarrow> outcome \<Rightarrow> string" where
  "failText failed errored out =
     (case out of Rejected e \<Rightarrow> errored @ e | Resolved d \<Rightarrow> failed @ strU (error d))"

definition restore :: "nat \<Rightarrow> string \<Rightarrow> ui \<Rightarrow> ui" where
  "restore this lbl u =
     u\<lparr>store := (store u)(this := (store u this)\<lparr>disabled := False, content := Text lbl\<rparr>)\<rparr>"

text \<open>A failing response that carries an error string, and the successful first narrative.\<close>

definition failedReply :: "string \<Rightarrow> reply" where
  "failedReply err = \<lparr>success = False, error = Some err, initial_narrative = None,
     response = None, models = None\<rparr>"

definition welcomeReply :: reply where
  "welcomeReply = \<lparr>success = True, error = None, initial_narrative = Some txt_welcome,
     response = None, models = None\<rparr>"

text \<open>A control is busy, or idle, under a label.\<close>

definition busy :: "nat \<Rightarrow> string \<Rightarrow> ui \<Rightarrow> bool" where
  "busy a l u = (disabled (store u a) \<and> content (store u a) = Text l)"

definition idle :: "nat \<Rightarrow> string \<Rightarrow> ui \<Rightarrow> bool" where
  "idle a l u = (\<not> disabled (store u a) \<and> content (store u a) = Text l)"

text \<open>
  The rendered page after a click on the button that starts the narrative (element 33) and
  a successful response that carries the first narrative.
\<close>

definition indexAfterStart :: ui where
  "indexAfterStart =
     snd (startNarrativeSettle 33 (Resolved welcomeReply) (snd (startNarrativeClick 33 indexPage)))"

text \<open>
  The excerpt after a click on the button that sends the action (element 19) and a
  rejected request.
\<close>

definition miniAfterFailedAction :: ui where
  "miniAfterFailedAction =
     snd (sendActionSettle 19 17 (Rejected ''offline'') (snd (sendActionClick 19 miniPage)))"



text \<open>
  A page whose transcript holds an entry, and in it the element that the markup of the
  entry makes: an element with the identifier of the section of the API configuration,
  which comes before that section in the document. The second navigation item names a
  section that does not exist.
\<close>

definition shadowNodes :: "node list" where
  "shadowNodes = [
     el ''div'' [] [''container''] None,
     el ''div'' [] [''sidebar''] (Some 0),
     (el ''div'' [] [''nav-item''] (Some 1))\<lparr>dataAttrs := [(''data-section'', ''api-config'')]\<rparr>,
     (el ''div'' [] [''nav-item''] (Some 1))\<lparr>dataAttrs := [(''data-section'', ''about'')]\<rparr>,
     el ''div'' ''home-section'' [''content-section''] (Some 0),
     el ''div'' ''narrative-history'' [''narrative-history''] (Some 4),
     (el ''div'' [] [''message-container'', ''ai-message''] (Some 5))\<lparr>content :=
       Html (entryHtml speaker_system ''<b id=api-config-section>x</b>'')\<rparr>,
     el ''b'' ''api-config-section'' [] (Some 6),
     (el ''div'' ''api-config-section'' [''content-section''] (Some 0))\<lparr>display := ''none''\<rparr>]"

definition shadowPage :: ui where
  "shadowPage = pageOf shadowNodes"

section \<open>Frames\<close>

text \<open>A statement keeps a property \<open>F\<close> of every element.\<close>

definition keeps :: "(node \<Rightarrow> 'a) \<Rightarrow> stmt \<Rightarrow> bool" where
  "keeps F s = (\<forall>u a. F (store (snd (s u)) a) = F (store u a))"

section \<open>Properties\<close>

subsection \<open>Frame rules\<close>

lemma map_of_setField: "map_of (setField k v ob) = (map_of ob)(k \<mapsto> v)"
  by (induction ob) (auto simp: fun_eq_iff)

lemma keepsD: "keeps F s \<Longrightarrow> F (store (snd (s u)) a) = F (store u a)"
  by (simp add: keeps_def)

lemma keeps_skip: "keeps F skip" by (simp add: keeps_def skip_def)
lemma keeps_return: "keeps F return" by (simp add: keeps_def return_def)
lemma keeps_emit: "keeps F (emit ev)" by (simp add: keeps_def emit_def)

lemma keeps_assign: "(\<And>n. F (f n) = F n) \<Longrightarrow> keeps F (assign a f)"
  by (simp add: keeps_def assign_def)

lemma keeps_block: "list_all (keeps F) ss \<Longrightarrow> keeps F (block ss)"
proof (induction ss)
  case Nil
  then show ?case by (simp add: keeps_def)
next
  case (Cons s ss)
  then have s: "keeps F s" and r: "keeps F (block ss)" by simp_all
  show ?case
    unfolding keeps_def
  proof (intro allI)
    fix u a
    obtain c u1 where su: "s u = (c, u1)" by (cases "s u")
    have 1: "F (store u1 a) = F (store u a)" using keepsD[OF s, where u=u and a=a] su by simp
    show "F (store (snd (block (s # ss) u)) a) = F (store u a)"
      using su 1 keepsD[OF r, where u=u1 and a=a] by simp
  qed
qed

lemma keeps_forEach: "(\<And>x. keeps F (f x)) \<Longrightarrow> keeps F (forEach xs f)"
  unfolding forEach_def by (rule keeps_block) (simp add: list_all_iff)

lemma keeps_call: "keeps F s \<Longrightarrow> keeps F (call s)"
proof -
  assume k: "keeps F s"
  show ?thesis
    unfolding keeps_def
  proof (intro allI)
    fix u a
    obtain c u1 where su: "s u = (c, u1)" by (cases "s u")
    show "F (store (snd (call s u)) a) = F (store u a)"
      using keepsD[OF k, where u=u and a=a] su by (simp add: call_def)
  qed
qed

lemma keeps_withElement: "(\<And>a. keeps F (k a)) \<Longrightarrow> keeps F (withElement i k)"
  by (simp add: keeps_def withElement_def split: option.splits)

lemma keeps_deref: "(\<And>a. keeps F (k a)) \<Longrightarrow> keeps F (deref r k)"
  by (simp add: keeps_def deref_def split: option.splits)

lemma keeps_whenSome: "(\<And>a. keeps F (k a)) \<Longrightarrow> keeps F (whenSome r k)"
  by (simp add: keeps_def whenSome_def split: option.splits)

lemma keeps_tryValue: "(\<And>x. keeps F (k x)) \<Longrightarrow> keeps F (tryValue r k)"
  by (simp add: keeps_def tryValue_def split: sum.splits)

lemma keeps_if: "keeps F s \<Longrightarrow> keeps F t \<Longrightarrow> keeps F (if b then s else t)"
  by simp

lemma keeps_state: "(\<And>v. keeps F (k v)) \<Longrightarrow> keeps F (\<lambda>u. k (g u) u)"
  by (simp add: keeps_def)

lemmas keeps_intros = keeps_skip keeps_return keeps_emit keeps_block keeps_forEach keeps_call
  keeps_withElement keeps_deref keeps_whenSome keeps_tryValue keeps_if

lemma keeps_refresh_dataAttrs: "keeps dataAttrs (refreshOllamaModels e)"
  unfolding refreshOllamaModels_def setDisabled_def setText_def
  by (intro keeps_intros keeps_assign) (simp_all add: keeps_intros keeps_assign)

lemma keeps_navMain_dataAttrs: "keeps dataAttrs (navMainClick e this)"
proof -
  have B: "keeps dataAttrs (block [
        forEach (navItems e) (\<lambda>nav. assign nav (removeClass ''active'')),
        assign this (addClass ''active''),
        forEach (contentSections e) (\<lambda>section. setDisplay section ''none''),
        withElement (strN sectionId @ ''-section'') (\<lambda>s. setDisplay s ''block''),
        (if sectionId = Some ''api-config'' then call (refreshOllamaModels e) else skip)
      ])" for sectionId
    by (rule keeps_block)
       (simp add: keeps_forEach keeps_withElement keeps_call keeps_skip keeps_assign
          keeps_refresh_dataAttrs setDisplay_def removeClass_def addClass_def)
  show ?thesis
    unfolding keeps_def navMainClick_def Let_def
    by (intro allI) (rule keepsD[OF B])
qed

subsection \<open>Evaluating selectors on a page\<close>

lemma find_upt_firstAt:
  "(\<And>j. j < length xs \<Longrightarrow> g (k + j) = xs ! j) \<Longrightarrow>
   find (\<lambda>a. P (g a)) [k..<k + length xs] = firstAt P k xs"
proof (induction xs arbitrary: k)
  case Nil
  then show ?case by simp
next
  case (Cons x xs)
  have g0: "g k = x" using Cons.prems[of 0] by simp
  have rest: "\<And>j. j < length xs \<Longrightarrow> g (Suc k + j) = xs ! j"
    using Cons.prems[of "Suc j" for j] by simp
  have "[k..<k + length (x # xs)] = k # [Suc k..<Suc k + length xs]"
    using upt_conv_Cons[of k "k + length (x # xs)"] by simp
  then show ?case using Cons.IH[OF rest] g0 by simp
qed

lemma find_pageOf:
  "find (\<lambda>a. P (store (pageOf ns) a)) (doc (pageOf ns)) = firstAt P 0 ns"
  using find_upt_firstAt[of ns "store (pageOf ns)" 0 P]
  by (simp add: pageOf_def)

lemma getElementById_pageOf:
  "getElementById i (pageOf ns) = firstAt (\<lambda>n. ident n = Some i) 0 ns"
  unfolding getElementById_def by (rule find_pageOf)

lemma checkedInput_pageOf:
  "checkedInput n (pageOf ns) =
     firstAt (\<lambda>x. tag x = ''input'' \<and> nameAttr x = Some n \<and> checked x) 0 ns"
  unfolding checkedInput_def by (rule find_pageOf)

lemma store_pageOf: "store (pageOf ns) a = (if a < length ns then ns ! a else blankNode [])"
  by (simp add: pageOf_def)

lemma el_simps [simp]:
  "tag (el t i cs p) = t"
  "ident (el t i cs p) = (if i = [] then None else Some i)"
  "nameAttr (el t i cs p) = None"
  "classList (el t i cs p) = cs"
  "dataAttrs (el t i cs p) = []"
  "display (el t i cs p) = []"
  "disabled (el t i cs p) = False"
  "content (el t i cs p) = Text []"
  "val (el t i cs p) = []"
  "checked (el t i cs p) = False"
  "files (el t i cs p) = []"
  "parent (el t i cs p) = p"
  by (simp_all add: el_def blankNode_def)

lemma mini_ids:
  "getElementById ''global-save-button'' miniPage = Some 10"
  "getElementById ''save-toast'' miniPage = Some 11"
  "getElementById ''novel-file'' miniPage = Some 12"
  "getElementById ''novel-title'' miniPage = Some 13"
  by (simp_all add: miniPage_def getElementById_pageOf miniNodes_def)

lemma mini_store: "store miniPage a = (if a < length miniNodes then miniNodes ! a else blankNode [])"
  by (simp add: miniPage_def store_pageOf)

subsection \<open>Reads of the collectors\<close>

lemma globalApi_total: "\<exists>c. globalApi u = Inr c"
  by (simp add: globalApi_def Let_def thenDo_def valueOf_def split: option.splits)

lemma globalModel_total: "\<exists>c. globalModel p u config = Inr c"
  by (simp add: globalModel_def Let_def thenDo_def valueOf_def split: option.splits)

lemma collectGlobalConfig_total: "\<exists>c. collectGlobalConfig u = Inr c"
proof -
  obtain c1 where 1: "globalApi u = Inr c1" using globalApi_total by blast
  obtain c2 where 2: "globalModel ''analysis'' u c1 = Inr c2" using globalModel_total by blast
  obtain c3 where 3: "globalModel ''writing'' u c2 = Inr c3" using globalModel_total by blast
  show ?thesis by (simp add: collectGlobalConfig_def thenDo_def 1 2 3)
qed

lemma reads_cong:
  assumes "doc u' = doc u"
    and "\<And>a. ident (store u' a) = ident (store u a)"
    and "\<And>a. tag (store u' a) = tag (store u a)"
    and "\<And>a. nameAttr (store u' a) = nameAttr (store u a)"
    and "\<And>a. checked (store u' a) = checked (store u a)"
    and "\<And>a. val (store u' a) = val (store u a)"
  shows "getElementById i u' = getElementById i u"
    and "checkedInput n u' = checkedInput n u"
    and "valueOf r u' = valueOf r u"
    and "checkedOf r u' = checkedOf r u"
    and "optValue r u' = optValue r u"
    and "optChecked r u' = optChecked r u"
  using assms
  by (simp_all add: getElementById_def checkedInput_def valueOf_def checkedOf_def optValue_def
      optChecked_def cong: option.case_cong)

lemma getElementById_cong:
  "doc u' = doc u \<Longrightarrow> (\<And>a. ident (store u' a) = ident (store u a)) \<Longrightarrow>
   getElementById i u' = getElementById i u"
  by (simp add: getElementById_def)

subsection \<open>Navigation and the floating button\<close>

lemma keeps_refresh:
  assumes "\<And>n b. F (n\<lparr>disabled := b\<rparr>) = F n" and "\<And>n c. F (n\<lparr>content := c\<rparr>) = F n"
  shows "keeps F (refreshOllamaModels e)"
  unfolding refreshOllamaModels_def setDisabled_def setText_def
  by (intro keeps_intros keeps_assign) (simp_all add: keeps_intros keeps_assign assms)

lemma forEach_assign:
  assumes idem: "\<And>n. f (f n) = f n"
  shows "forEach xs (\<lambda>a. assign a f) u =
     (Normal, u\<lparr>store := (\<lambda>a. if a \<in> set xs then f (store u a) else store u a)\<rparr>)"
proof (induction xs arbitrary: u)
  case Nil
  then show ?case by (simp add: forEach_def)
next
  case (Cons x xs)
  let ?u1 = "u\<lparr>store := (store u)(x := f (store u x))\<rparr>"
  have step: "forEach (x # xs) (\<lambda>a. assign a f) u = forEach xs (\<lambda>a. assign a f) ?u1"
    by (simp add: forEach_def assign_def)
  have "(\<lambda>a. if a \<in> set xs then f (store ?u1 a) else store ?u1 a) =
        (\<lambda>a. if a \<in> set (x # xs) then f (store u a) else store u a)"
    by (rule ext) (simp add: idem)
  then show ?case by (simp add: step Cons.IH)
qed

lemma keeps_navMain:
  assumes "\<And>n b. F (n\<lparr>disabled := b\<rparr>) = F n" and "\<And>n c. F (n\<lparr>content := c\<rparr>) = F n"
    and "\<And>n c. F (n\<lparr>classList := c\<rparr>) = F n" and "\<And>n c. F (n\<lparr>display := c\<rparr>) = F n"
  shows "keeps F (navMainClick e this)"
proof -
  have B: "keeps F (block [
        forEach (navItems e) (\<lambda>nav. assign nav (removeClass ''active'')),
        assign this (addClass ''active''),
        forEach (contentSections e) (\<lambda>section. setDisplay section ''none''),
        withElement (strN sectionId @ ''-section'') (\<lambda>s. setDisplay s ''block''),
        (if sectionId = Some ''api-config'' then call (refreshOllamaModels e) else skip)
      ])" for sectionId
    by (rule keeps_block)
       (simp add: keeps_forEach keeps_withElement keeps_call keeps_skip keeps_assign
          keeps_refresh assms setDisplay_def removeClass_def addClass_def)
  show ?thesis
    unfolding keeps_def navMainClick_def Let_def
    by (intro allI) (rule keepsD[OF B])
qed

lemma filter_eq_single: "distinct xs \<Longrightarrow> t \<in> set xs \<Longrightarrow> filter (\<lambda>s. s = t) xs = [t]"
  by (induction xs) (auto simp: filter_empty_conv)

lemma collect_cong:
  assumes "doc u' = doc u"
    and "\<And>a. ident (store u' a) = ident (store u a)"
    and "\<And>a. tag (store u' a) = tag (store u a)"
    and "\<And>a. nameAttr (store u' a) = nameAttr (store u a)"
    and "\<And>a. checked (store u' a) = checked (store u a)"
    and "\<And>a. val (store u' a) = val (store u a)"
  shows "collectGlobalConfig u' = collectGlobalConfig u"
    and "collectFormConfig u' = collectFormConfig u"
  unfolding collectGlobalConfig_def globalApi_def globalModel_def checkedOr_def
      valueOr_def collectFormConfig_def formApi_def formModel_def valueById_def checkedById_def
      checkedValue_def reads_cong[OF assms]
  by (rule refl)+

lemma collectors_ignore_classes:
  "collectGlobalConfig (u\<lparr>store := (store u)(g := addClass c (store u g))\<rparr>) = collectGlobalConfig u"
  by (rule collect_cong) (simp_all add: addClass_def)

lemma navMain_display:
  assumes sid: "getAttribute ''data-section'' (store u this) = Some sid"
    and tgt: "getElementById (sid @ ''-section'') u = Some t"
  shows "display (store (snd (navMainClick e this u)) s) =
     (if s = t then ''block''
      else if s \<in> set (contentSections e) then ''none'' else display (store u s))"
proof -
  define S1 where
    "S1 = (\<lambda>a. if a \<in> set (navItems e) then removeClass ''active'' (store u a) else store u a)"
  define S2 where "S2 = S1(this := addClass ''active'' (S1 this))"
  define S3 where
    "S3 = (\<lambda>a. if a \<in> set (contentSections e) then (S2 a)\<lparr>display := ''none''\<rparr> else S2 a)"
  define S4 where "S4 = S3(t := (S3 t)\<lparr>display := ''block''\<rparr>)"
  define last where
    "last = (if Some sid = Some ''api-config'' then call (refreshOllamaModels e) else skip)"
  have 1: "forEach (navItems e) (\<lambda>nav. assign nav (removeClass ''active'')) u
            = (Normal, u\<lparr>store := S1\<rparr>)"
    unfolding S1_def by (rule forEach_assign) (simp add: removeClass_def)
  have 2: "assign this (addClass ''active'') (u\<lparr>store := S1\<rparr>) = (Normal, u\<lparr>store := S2\<rparr>)"
    by (simp add: assign_def S2_def)
  have 3: "forEach (contentSections e) (\<lambda>section. setDisplay section ''none'') (u\<lparr>store := S2\<rparr>)
            = (Normal, u\<lparr>store := S3\<rparr>)"
    unfolding setDisplay_def S3_def
    by (subst forEach_assign) (simp_all cong: if_cong)
  have idents: "ident (S3 a) = ident (store u a)" for a
    by (simp add: S3_def S2_def S1_def removeClass_def addClass_def)
  have g: "getElementById (sid @ ''-section'') (u\<lparr>store := S3\<rparr>) = Some t"
    unfolding tgt[symmetric]
    by (rule getElementById_cong) (simp_all add: idents)
  have 4: "withElement (strN (Some sid) @ ''-section'') (\<lambda>s. setDisplay s ''block'') (u\<lparr>store := S3\<rparr>)
            = (Normal, u\<lparr>store := S4\<rparr>)"
    using g by (simp add: withElement_def strN_def setDisplay_def assign_def S4_def)
  have k: "keeps display last"
    by (simp add: last_def keeps_call keeps_skip keeps_refresh)
  have 5: "display (store (snd (last (u\<lparr>store := S4\<rparr>))) s) = display (S4 s)"
    using keepsD[OF k, where u="u\<lparr>store := S4\<rparr>" and a=s] by simp
  have run: "snd (navMainClick e this u) = snd (last (u\<lparr>store := S4\<rparr>))"
    unfolding navMainClick_def Let_def sid last_def[symmetric]
    by (simp add: 1 2 3 4 split: prod.splits)
  have "display (S4 s) = (if s = t then ''block''
      else if s \<in> set (contentSections e) then ''none'' else display (store u s))"
    by (simp add: S4_def S3_def S2_def S1_def removeClass_def addClass_def)
  then show ?thesis
    unfolding run 5 .
qed

text \<open>
  C7, as amended. After a click on a navigation item that has a section identifier, when
  the first element of the document whose id is that identifier followed by
  \<^verbatim>\<open>-section\<close> is one of the content sections the script captured, the visible content
  sections are exactly that one section: it has the display \<^verbatim>\<open>block\<close> and every other one
  the display \<^verbatim>\<open>none\<close>. The captured sections are distinct, and the floating button is
  not one of them.
\<close>

theorem nav_shows_one_section:
  assumes "getAttribute ''data-section'' (store u this) = Some sid"
    and "getElementById (sid @ ''-section'') u = Some t"
    and "t \<in> set (contentSections e)"
    and "distinct (contentSections e)"
    and "globalSaveButton e \<notin> Some ` set (contentSections e)"
  shows "filter (\<lambda>s. display (store (snd (navClick e this u)) s) \<noteq> ''none'') (contentSections e)
           = [t] \<and>
         ident (store (snd (navClick e this u)) t) = Some (sid @ ''-section'') \<and>
         display (store (snd (navClick e this u)) t) = ''block''"
proof -
  obtain c1 u1 where m: "navMainClick e this u = (c1, u1)" by (cases "navMainClick e this u")
  have d1: "display (store u1 s) =
     (if s = t then ''block''
      else if s \<in> set (contentSections e) then ''none'' else display (store u s))" for s
    using navMain_display[OF assms(1,2), of e s] m by simp
  have d: "s \<in> set (contentSections e) \<Longrightarrow>
        display (store (snd (navClick e this u)) s) = (if s = t then ''block'' else ''none'')" for s
    using assms(5) m d1[of s]
    by (auto simp: navClick_def navFloatingClick_def setDisplay_def assign_def
        split: option.splits)
  have "filter (\<lambda>s. display (store (snd (navClick e this u)) s) \<noteq> ''none'') (contentSections e)
        = filter (\<lambda>s. s = t) (contentSections e)"
    by (rule filter_cong) (simp_all add: d)
  also have "\<dots> = [t]"
    using assms(3,4) by (simp add: filter_eq_single)
  finally have A: "filter (\<lambda>s. display (store (snd (navClick e this u)) s) \<noteq> ''none'')
      (contentSections e) = [t]" .
  have i0: "ident (store u t) = Some (sid @ ''-section'')"
    using assms(2) by (auto simp: getElementById_def find_Some_iff)
  have "ident (store u1 t) = ident (store u t)"
  proof -
    have "keeps ident (navMainClick e this)" by (rule keeps_navMain) simp_all
    from keepsD[OF this, where u=u and a=t] m show ?thesis by simp
  qed
  then have B: "ident (store (snd (navClick e this u)) t) = Some (sid @ ''-section'')"
    using m i0
    by (simp add: navClick_def navFloatingClick_def setDisplay_def assign_def
        split: option.splits)
  show ?thesis using A B d[OF assms(3)] by simp
qed

text \<open>
  C8. After a click on a navigation item the floating save button is shown (\<^verbatim>\<open>flex\<close>) when
  the item's section identifier is \<^verbatim>\<open>api-config\<close>, and hidden (\<^verbatim>\<open>none\<close>) for every other
  identifier and for an item without one.
\<close>

theorem floating_visibility:
  assumes "globalSaveButton e = Some g"
  shows "display (store (snd (navClick e this u)) g) =
           (if getAttribute ''data-section'' (store u this) = Some ''api-config''
            then ''flex'' else ''none'')"
proof -
  obtain c1 u1 where m: "navMainClick e this u = (c1, u1)" by (cases "navMainClick e this u")
  have "dataAttrs (store u1 this) = dataAttrs (store u this)"
    using keepsD[OF keeps_navMain_dataAttrs, where u=u and a=this and e1=e and this1=this] m
    by simp
  then have "getAttribute ''data-section'' (store u1 this) =
             getAttribute ''data-section'' (store u this)"
    by (simp add: getAttribute_def)
  then show ?thesis
    using assms m
    by (simp add: navClick_def navFloatingClick_def setDisplay_def assign_def)
qed

theorem floating_visibility_witness:
  "globalSaveButton (pageEnv miniPage) = Some 10 \<and>
   display (store (snd (navClick (pageEnv miniPage) 1 miniPage)) 10) = ''flex'' \<and>
   display (store (snd (navClick (pageEnv miniPage) 0 miniPage)) 10) = ''none''"
proof -
  have g: "globalSaveButton (pageEnv miniPage) = Some 10"
    by (simp add: pageEnv_def mini_ids)
  show ?thesis
    using g floating_visibility[OF g, of 1 miniPage] floating_visibility[OF g, of 0 miniPage]
    by (simp add: getAttribute_def mini_store miniNodes_def)
qed

text \<open>
  C9. The floating save button has two states, told apart by the class \<^verbatim>\<open>saving\<close>. A click
  while it is saving changes nothing and issues no request. A click while it is idle makes
  it saving and issues one request, carrying the collected draft. When the request
  settles, whatever the outcome, the button is idle again.
\<close>

theorem save_button_two_states:
  "(''saving'' \<in> set (classList (store u g)) \<longrightarrow> globalSaveClick g u = (Return, u)) \<and>
   (''saving'' \<notin> set (classList (store u g)) \<longrightarrow>
      ''saving'' \<in> set (classList (store (snd (globalSaveClick g u)) g)) \<and>
      (\<exists>config. collectGlobalConfig u = Inr config \<and>
         trace (snd (globalSaveClick g u)) =
           trace u @ [Fetch ''/api/update_api_config'' (Json config)])) \<and>
   ''saving'' \<notin> set (classList (store (snd (globalSaveSettle e g config' out u)) g))"
proof (intro conjI impI)
  assume "''saving'' \<in> set (classList (store u g))"
  then show "globalSaveClick g u = (Return, u)"
    by (simp add: globalSaveClick_def return_def)
next
  assume idle: "''saving'' \<notin> set (classList (store u g))"
  obtain c where c: "collectGlobalConfig u = Inr c" using collectGlobalConfig_total by blast
  have run: "globalSaveClick g u =
      (Normal, u\<lparr>store := (store u)(g := addClass ''saving'' (store u g)),
                 trace := trace u @ [Fetch ''/api/update_api_config'' (Json c)]\<rparr>)"
    using idle c
    by (simp add: globalSaveClick_def assign_def tryValue_def emit_def collectors_ignore_classes)
  show "''saving'' \<in> set (classList (store (snd (globalSaveClick g u)) g))"
    by (simp add: run addClass_def)
  show "\<exists>config. collectGlobalConfig u = Inr config \<and>
         trace (snd (globalSaveClick g u)) =
           trace u @ [Fetch ''/api/update_api_config'' (Json config)]"
    by (simp add: run c)
next
  show "''saving'' \<notin> set (classList (store (snd (globalSaveSettle e g config' out u)) g))"
    by (simp add: globalSaveSettle_def settle_def assign_def removeClass_def
        split: prod.splits completion.splits)
qed

lemma filter_upt_allAt:
  "(\<And>j. j < length xs \<Longrightarrow> g (k + j) = xs ! j) \<Longrightarrow>
   filter (\<lambda>a. P (g a)) [k..<k + length xs] = allAt P k xs"
proof (induction xs arbitrary: k)
  case Nil
  then show ?case by simp
next
  case (Cons x xs)
  have g0: "g k = x" using Cons.prems[of 0] by simp
  have rest: "\<And>j. j < length xs \<Longrightarrow> g (Suc k + j) = xs ! j"
    using Cons.prems[of "Suc j" for j] by simp
  have "[k..<k + length (x # xs)] = k # [Suc k..<Suc k + length xs]"
    using upt_conv_Cons[of k "k + length (x # xs)"] by simp
  then show ?case using Cons.IH[OF rest] g0 by simp
qed

lemma byClass_pageOf: "byClass c (pageOf ns) = allAt (\<lambda>n. c \<in> set (classList n)) 0 ns"
  unfolding byClass_def
  using filter_upt_allAt[of ns "store (pageOf ns)" 0 "\<lambda>n. c \<in> set (classList n)"]
  by (simp add: pageOf_def)

lemma mini_env:
  "contentSections (pageEnv miniPage) = [2, 3]"
  "navItems (pageEnv miniPage) = [0, 1]"
  "globalSaveButton (pageEnv miniPage) = Some 10"
  "saveToast (pageEnv miniPage) = Some 11"
  by (simp_all add: pageEnv_def miniPage_def byClass_pageOf getElementById_pageOf miniNodes_def)

lemma mini_ids2:
  "getElementById ''api-config-section'' miniPage = Some 3"
  "getElementById ''home-section'' miniPage = Some 2"
  by (simp_all add: miniPage_def getElementById_pageOf miniNodes_def)

lemma env_fields:
  "navItems (pageEnv u) = byClass ''nav-item'' u"
  "contentSections (pageEnv u) = byClass ''content-section'' u"
  "globalSaveButton (pageEnv u) = getElementById ''global-save-button'' u"
  by (simp_all add: pageEnv_def)

lemma index_sections:
  "byClass ''content-section'' indexPage = [7, 34, 39, 79]"
  "getElementById ''global-save-button'' indexPage = Some 92"
  "getElementById ''home-section'' indexPage = Some 7"
  "getElementById ''chat-section'' indexPage = Some 34"
  "getElementById ''api-config-section'' indexPage = Some 39"
  "getElementById ''settings-section'' indexPage = Some 79"
  "getAttribute ''data-section'' (store indexPage 2) = Some ''home''"
  "getAttribute ''data-section'' (store indexPage 3) = Some ''chat''"
  "getAttribute ''data-section'' (store indexPage 4) = Some ''api-config''"
  "getAttribute ''data-section'' (store indexPage 5) = Some ''settings''"
  by (simp_all add: indexPage_def byClass_pageOf getElementById_pageOf store_pageOf
      getAttribute_def indexNodes_def)

theorem nav_shows_one_section_witness:
  "getAttribute ''data-section'' (store miniPage 1) = Some ''api-config'' \<and>
   getElementById (''api-config'' @ ''-section'') miniPage = Some 3 \<and>
   contentSections (pageEnv miniPage) = [2, 3] \<and>
   globalSaveButton (pageEnv miniPage) = Some 10 \<and>
   filter (\<lambda>s. display (store (snd (navClick (pageEnv miniPage) 1 miniPage)) s) \<noteq> ''none'')
     (contentSections (pageEnv miniPage)) = [3] \<and>
   ident (store (snd (navClick (pageEnv miniPage) 1 miniPage)) 3) = Some ''api-config-section'' \<and>
   contentSections (pageEnv indexPage) = [7, 34, 39, 79] \<and>
   globalSaveButton (pageEnv indexPage) = Some 92 \<and>
   getAttribute ''data-section'' (store indexPage 2) = Some ''home'' \<and>
   getElementById (''home'' @ ''-section'') indexPage = Some 7 \<and>
   filter (\<lambda>s. display (store (snd (navClick (pageEnv indexPage) 2 indexPage)) s) \<noteq> ''none'')
     (contentSections (pageEnv indexPage)) = [7] \<and>
   getAttribute ''data-section'' (store indexPage 3) = Some ''chat'' \<and>
   getElementById (''chat'' @ ''-section'') indexPage = Some 34 \<and>
   filter (\<lambda>s. display (store (snd (navClick (pageEnv indexPage) 3 indexPage)) s) \<noteq> ''none'')
     (contentSections (pageEnv indexPage)) = [34] \<and>
   getAttribute ''data-section'' (store indexPage 4) = Some ''api-config'' \<and>
   getElementById (''api-config'' @ ''-section'') indexPage = Some 39 \<and>
   filter (\<lambda>s. display (store (snd (navClick (pageEnv indexPage) 4 indexPage)) s) \<noteq> ''none'')
     (contentSections (pageEnv indexPage)) = [39] \<and>
   getAttribute ''data-section'' (store indexPage 5) = Some ''settings'' \<and>
   getElementById (''settings'' @ ''-section'') indexPage = Some 79 \<and>
   filter (\<lambda>s. display (store (snd (navClick (pageEnv indexPage) 5 indexPage)) s) \<noteq> ''none'')
     (contentSections (pageEnv indexPage)) = [79]"
proof -
  have a: "getAttribute ''data-section'' (store miniPage 1) = Some ''api-config''"
    by (simp add: getAttribute_def mini_store miniNodes_def)
  have b: "getElementById (''api-config'' @ ''-section'') miniPage = Some 3"
    by (simp add: mini_ids2)
  have m: "filter (\<lambda>s. display (store (snd (navClick (pageEnv miniPage) 1 miniPage)) s) \<noteq> ''none'')
     (contentSections (pageEnv miniPage)) = [3] \<and>
   ident (store (snd (navClick (pageEnv miniPage) 1 miniPage)) 3) = Some ''api-config-section''"
    using nav_shows_one_section[OF a b, of "pageEnv miniPage"]
    by (simp add: mini_env)
  have e: "contentSections (pageEnv indexPage) = [7, 34, 39, 79]"
    "globalSaveButton (pageEnv indexPage) = Some 92"
    by (simp_all add: env_fields index_sections)
  have d: "distinct (contentSections (pageEnv indexPage))"
    "globalSaveButton (pageEnv indexPage) \<notin> Some ` set (contentSections (pageEnv indexPage))"
    "7 \<in> set (contentSections (pageEnv indexPage))"
    "34 \<in> set (contentSections (pageEnv indexPage))"
    "39 \<in> set (contentSections (pageEnv indexPage))"
    "79 \<in> set (contentSections (pageEnv indexPage))"
    by (simp_all add: e)
  have g: "getElementById (''home'' @ ''-section'') indexPage = Some 7"
    "getElementById (''chat'' @ ''-section'') indexPage = Some 34"
    "getElementById (''api-config'' @ ''-section'') indexPage = Some 39"
    "getElementById (''settings'' @ ''-section'') indexPage = Some 79"
    by (simp_all add: index_sections)
  note i2 = nav_shows_one_section[OF index_sections(7) g(1) d(3) d(1) d(2), THEN conjunct1]
  note i3 = nav_shows_one_section[OF index_sections(8) g(2) d(4) d(1) d(2), THEN conjunct1]
  note i4 = nav_shows_one_section[OF index_sections(9) g(3) d(5) d(1) d(2), THEN conjunct1]
  note i5 = nav_shows_one_section[OF index_sections(10) g(4) d(6) d(1) d(2), THEN conjunct1]
  show ?thesis
    unfolding i2 i3 i4 i5 g
    using a b m by (simp add: mini_env e index_sections)
qed

lemma navMain_missing:
  assumes tgt: "getElementById (strN (getAttribute ''data-section'' (store u this)) @ ''-section'') u
      = None"
  shows "fst (navMainClick e this u) = Throw typeError"
    and "display (store (snd (navMainClick e this u)) s) =
     (if s \<in> set (contentSections e) then ''none'' else display (store u s))"
proof -
  define sid where "sid = getAttribute ''data-section'' (store u this)"
  define S1 where
    "S1 = (\<lambda>a. if a \<in> set (navItems e) then removeClass ''active'' (store u a) else store u a)"
  define S2 where "S2 = S1(this := addClass ''active'' (S1 this))"
  define S3 where
    "S3 = (\<lambda>a. if a \<in> set (contentSections e) then (S2 a)\<lparr>display := ''none''\<rparr> else S2 a)"
  have 1: "forEach (navItems e) (\<lambda>nav. assign nav (removeClass ''active'')) u
            = (Normal, u\<lparr>store := S1\<rparr>)"
    unfolding S1_def by (rule forEach_assign) (simp add: removeClass_def)
  have 2: "assign this (addClass ''active'') (u\<lparr>store := S1\<rparr>) = (Normal, u\<lparr>store := S2\<rparr>)"
    by (simp add: assign_def S2_def)
  have 3: "forEach (contentSections e) (\<lambda>section. setDisplay section ''none'') (u\<lparr>store := S2\<rparr>)
            = (Normal, u\<lparr>store := S3\<rparr>)"
    unfolding setDisplay_def S3_def
    by (subst forEach_assign) (simp_all cong: if_cong)
  have idents: "ident (S3 a) = ident (store u a)" for a
    by (simp add: S3_def S2_def S1_def removeClass_def addClass_def)
  have "getElementById (strN sid @ ''-section'') (u\<lparr>store := S3\<rparr>)
      = getElementById (strN sid @ ''-section'') u"
    by (rule getElementById_cong) (simp_all add: idents)
  then have 4: "withElement (strN sid @ ''-section'') k (u\<lparr>store := S3\<rparr>)
      = (Throw typeError, u\<lparr>store := S3\<rparr>)" for k
    using tgt by (simp add: withElement_def sid_def)
  have run: "navMainClick e this u = (Throw typeError, u\<lparr>store := S3\<rparr>)"
    unfolding navMainClick_def Let_def sid_def[symmetric]
    by (simp add: 1 2 3 4)
  show "fst (navMainClick e this u) = Throw typeError" by (simp add: run)
  show "display (store (snd (navMainClick e this u)) s) =
     (if s \<in> set (contentSections e) then ''none'' else display (store u s))"
    by (simp add: run S3_def S2_def S1_def removeClass_def addClass_def)
qed

lemma shadow_facts:
  "byClass ''content-section'' shadowPage = [4, 8]"
  "getElementById ''global-save-button'' shadowPage = None"
  "getElementById ''api-config-section'' shadowPage = Some 7"
  "getElementById ''about-section'' shadowPage = None"
  "getAttribute ''data-section'' (store shadowPage 2) = Some ''api-config''"
  "getAttribute ''data-section'' (store shadowPage 3) = Some ''about''"
  "classList (store shadowPage 7) = []"
  "display (store shadowPage 4) = []"
  by (simp_all add: shadowPage_def byClass_pageOf getElementById_pageOf store_pageOf
      getAttribute_def shadowNodes_def)

text \<open>
  The claim as stated fails on a page whose transcript holds an element with the
  identifier \<^verbatim>\<open>api-config-section\<close>, as it does once a response with the text
  \<^verbatim>\<open><b id=api-config-section>x</b>\<close> has been shown there: it comes before the section in
  the document, so a click on the item of the API configuration hides both content
  sections and shows that element instead. A click on an item whose section does not
  exist hides both content sections and throws. After either click no content section is
  visible.
\<close>

theorem nav_shows_one_section_counterexample:
  "contentSections (pageEnv shadowPage) = [4, 8] \<and>
   display (store shadowPage 4) = [] \<and>
   getAttribute ''data-section'' (store shadowPage 2) = Some ''api-config'' \<and>
   getElementById ''api-config-section'' shadowPage = Some 7 \<and>
   classList (store shadowPage 7) = [] \<and>
   display (store (snd (navClick (pageEnv shadowPage) 2 shadowPage)) 4) = ''none'' \<and>
   display (store (snd (navClick (pageEnv shadowPage) 2 shadowPage)) 8) = ''none'' \<and>
   display (store (snd (navClick (pageEnv shadowPage) 2 shadowPage)) 7) = ''block'' \<and>
   getAttribute ''data-section'' (store shadowPage 3) = Some ''about'' \<and>
   getElementById ''about-section'' shadowPage = None \<and>
   fst (navMainClick (pageEnv shadowPage) 3 shadowPage) = Throw typeError \<and>
   display (store (snd (navClick (pageEnv shadowPage) 3 shadowPage)) 4) = ''none'' \<and>
   display (store (snd (navClick (pageEnv shadowPage) 3 shadowPage)) 8) = ''none''"
proof -
  have e: "contentSections (pageEnv shadowPage) = [4, 8]"
    "globalSaveButton (pageEnv shadowPage) = None"
    by (simp_all add: env_fields shadow_facts)
  have n: "snd (navClick (pageEnv shadowPage) k shadowPage)
      = snd (navMainClick (pageEnv shadowPage) k shadowPage)" for k
    by (simp add: navClick_def e split: prod.splits)
  have d0: "display (store (snd (navMainClick (pageEnv shadowPage) 2 shadowPage)) s) =
      (if s = 7 then ''block'' else if s = 4 \<or> s = 8 then ''none''
       else display (store shadowPage s))" for s
    using navMain_display[of shadowPage 2 "''api-config''" 7 "pageEnv shadowPage" s]
    by (simp add: shadow_facts e)
  have m: "getElementById (strN (getAttribute ''data-section'' (store shadowPage 3)) @ ''-section'')
      shadowPage = None"
    unfolding shadow_facts(6) by (simp add: strN_def shadow_facts)
  have d1: "display (store (snd (navMainClick (pageEnv shadowPage) 3 shadowPage)) s) =
      (if s = 4 \<or> s = 8 then ''none'' else display (store shadowPage s))" for s
    using navMain_missing(2)[OF m, of "pageEnv shadowPage" s] by (simp add: e)
  show ?thesis
    by (simp add: e n d0 d1 navMain_missing(1)[OF m] shadow_facts)
qed

theorem save_button_two_states_witness:
  "''saving'' \<notin> set (classList (store miniPage 10)) \<and>
   ''saving'' \<in> set (classList (store (snd (globalSaveClick 10 miniPage)) 10)) \<and>
   globalSaveClick 10 (snd (globalSaveClick 10 miniPage)) = (Return, snd (globalSaveClick 10 miniPage)) \<and>
   ''saving'' \<notin> set (classList (store (snd (globalSaveSettle (pageEnv miniPage) 10 []
       (Rejected ''offline'') (snd (globalSaveClick 10 miniPage)))) 10))"
proof -
  have idle: "''saving'' \<notin> set (classList (store miniPage 10))"
    by (simp add: mini_store miniNodes_def)
  have busy: "''saving'' \<in> set (classList (store (snd (globalSaveClick 10 miniPage)) 10))"
    using save_button_two_states[of miniPage 10] idle by blast
  show ?thesis
    using idle busy
      save_button_two_states[of "snd (globalSaveClick 10 miniPage)" 10 "pageEnv miniPage" "[]"
        "Rejected ''offline''"]
    by blast
qed

subsection \<open>Upload\<close>

lemma uploadSubmit_trace:
  "\<exists>evs. trace (snd (uploadSubmit u)) = trace u @ evs \<and>
     ((\<exists>b. Fetch ''/upload_novel'' b \<in> set evs) \<longrightarrow>
        (\<exists>f name rest. getElementById ''novel-file'' u = Some f \<and>
           files (store u f) = name # rest \<and> endsWith ''.txt'' name))"
  by (auto simp: uploadSubmit_def withElement_def tryValue_def valueById_def valueOf_def
      emit_def return_def setDisplay_def assign_def Let_def
      split: option.splits list.splits)

text \<open>
  C10. A submission of the upload form issues the request \<^verbatim>\<open>/upload_novel\<close> only when a file
  is selected whose name ends with \<^verbatim>\<open>.txt\<close>. With the two inputs of the form in the
  document: when no file is selected, or the name of the selected file does not end with
  \<^verbatim>\<open>.txt\<close>, the handler shows an alert and returns, and nothing else changes: no request is
  issued and no element is written, so the processing card stays as it was.
\<close>

theorem upload_only_txt:
  "(\<forall>b. Fetch ''/upload_novel'' b \<in> set (drop (length (trace u)) (trace (snd (uploadSubmit u)))) \<longrightarrow>
      (\<exists>f name rest. getElementById ''novel-file'' u = Some f \<and>
         files (store u f) = name # rest \<and> endsWith ''.txt'' name)) \<and>
   (getElementById ''novel-file'' u = Some f \<and> getElementById ''novel-title'' u \<noteq> None \<longrightarrow>
      (files (store u f) = [] \<longrightarrow>
         uploadSubmit u = (Return, u\<lparr>trace := trace u @ [Alert msg_choose_file]\<rparr>)) \<and>
      (\<forall>name rest. files (store u f) = name # rest \<and> \<not> endsWith ''.txt'' name \<longrightarrow>
         uploadSubmit u = (Return, u\<lparr>trace := trace u @ [Alert msg_txt_only]\<rparr>)))"
proof (intro conjI allI impI)
  fix b
  assume b: "Fetch ''/upload_novel'' b \<in> set (drop (length (trace u)) (trace (snd (uploadSubmit u))))"
  obtain evs where e: "trace (snd (uploadSubmit u)) = trace u @ evs"
    and r: "(\<exists>b. Fetch ''/upload_novel'' b \<in> set evs) \<longrightarrow>
        (\<exists>f name rest. getElementById ''novel-file'' u = Some f \<and>
           files (store u f) = name # rest \<and> endsWith ''.txt'' name)"
    using uploadSubmit_trace[of u] by blast
  from b e have "Fetch ''/upload_novel'' b \<in> set evs" by simp
  with r show "\<exists>f name rest. getElementById ''novel-file'' u = Some f \<and>
         files (store u f) = name # rest \<and> endsWith ''.txt'' name" by blast
next
  assume "getElementById ''novel-file'' u = Some f \<and> getElementById ''novel-title'' u \<noteq> None"
    and "files (store u f) = []"
  then show "uploadSubmit u = (Return, u\<lparr>trace := trace u @ [Alert msg_choose_file]\<rparr>)"
    by (auto simp: uploadSubmit_def withElement_def tryValue_def valueById_def valueOf_def
        emit_def return_def)
next
  fix name rest
  assume "getElementById ''novel-file'' u = Some f \<and> getElementById ''novel-title'' u \<noteq> None"
    and "files (store u f) = name # rest \<and> \<not> endsWith ''.txt'' name"
  then show "uploadSubmit u = (Return, u\<lparr>trace := trace u @ [Alert msg_txt_only]\<rparr>)"
    by (auto simp: uploadSubmit_def withElement_def tryValue_def valueById_def valueOf_def
        emit_def return_def)
qed

lemma mini_file_ids:
  "getElementById ''novel-file'' (miniPageWithFile n) = Some 12"
  "getElementById ''novel-title'' (miniPageWithFile n) = Some 13"
  "files (store (miniPageWithFile n) 12) = [n]"
  by (simp_all add: miniPageWithFile_def getElementById_pageOf store_pageOf miniNodes_def)

lemma mini_upload_ids:
  "getElementById ''novel-file'' miniPage = Some 12"
  "getElementById ''novel-title'' miniPage = Some 13"
  "files (store miniPage 12) = []"
  by (simp_all add: miniPage_def getElementById_pageOf store_pageOf miniNodes_def)

theorem upload_only_txt_witness:
  "getElementById ''novel-file'' miniPage = Some 12 \<and>
   getElementById ''novel-title'' miniPage \<noteq> None \<and>
   files (store miniPage 12) = [] \<and>
   uploadSubmit miniPage = (Return, miniPage\<lparr>trace := trace miniPage @ [Alert msg_choose_file]\<rparr>) \<and>
   files (store (miniPageWithFile ''novel.pdf'') 12) = [''novel.pdf''] \<and>
   \<not> endsWith ''.txt'' ''novel.pdf'' \<and>
   uploadSubmit (miniPageWithFile ''novel.pdf'') =
     (Return, (miniPageWithFile ''novel.pdf'')\<lparr>trace :=
        trace (miniPageWithFile ''novel.pdf'') @ [Alert msg_txt_only]\<rparr>)"
proof -
  have e: "\<not> endsWith ''.txt'' ''novel.pdf''" by (simp add: endsWith_def)
  show ?thesis
    using upload_only_txt[of miniPage 12] upload_only_txt[of "miniPageWithFile ''novel.pdf''" 12] e
    by (simp add: mini_file_ids mini_upload_ids)
qed

subsection \<open>Branches of the draft\<close>

lemma hasField_setField: "hasField k (setField k' v ob) = (k = k' \<or> hasField k ob)"
  by (auto simp: hasField_def map_of_setField)

lemma globalApi_branch:
  assumes "globalApi u = Inr c"
  shows "apiBranch u c" and "k \<in> set (modelKeys ''analysis'') \<union> set (modelKeys ''writing'') \<Longrightarrow> map_of c k = None"
  using assms
  by (auto simp: globalApi_def Let_def thenDo_def valueOf_def apiBranch_def hasField_def
      map_of_setField modelKeys_def split: option.splits if_splits)


lemma globalModel_other:
  "globalModel p u c0 = Inr c \<Longrightarrow> k \<notin> set (modelKeys p) \<Longrightarrow> map_of c k = map_of c0 k"
  by (auto simp: globalModel_def Let_def thenDo_def valueOf_def map_of_setField modelKeys_def
      split: option.splits if_splits)









lemma keys_apart:
  "k \<in> set apiKeys \<Longrightarrow> k \<notin> set (modelKeys ''analysis'')"
  "k \<in> set apiKeys \<Longrightarrow> k \<notin> set (modelKeys ''writing'')"
  "k \<in> set (modelKeys ''analysis'') \<Longrightarrow> k \<notin> set (modelKeys ''writing'')"
  by (auto simp: apiKeys_def modelKeys_def)




lemma empty_collect:
  "collectGlobalConfig emptyPage =
     Inr [(''use_online_api'', JBool False), (''ollama_api_url'', JStr ''http://127.0.0.1:11434'')]"
  "collectFormConfig emptyPage = Inl typeError"
  by (simp_all add: collectGlobalConfig_def collectFormConfig_def globalApi_def formApi_def
      globalModel_def formModel_def checkedOr_def valueOr_def valueById_def checkedById_def
      checkedValue_def valueOf_def checkedOf_def optValue_def optChecked_def orStr_def
      orFalse_def thenDo_def Let_def
      emptyPage_def getElementById_pageOf checkedInput_pageOf store_pageOf)

lemma online_collect:
  "collectGlobalConfig onlinePage = Inr onlineDraft"
  "collectFormConfig onlinePage = Inl typeError"
  by (simp_all add: collectGlobalConfig_def collectFormConfig_def globalApi_def formApi_def
      globalModel_def formModel_def checkedOr_def valueOr_def valueById_def checkedById_def
      checkedValue_def valueOf_def checkedOf_def optValue_def optChecked_def orStr_def
      orFalse_def thenDo_def Let_def onlineDraft_def
      onlinePage_def getElementById_pageOf checkedInput_pageOf store_pageOf onlineNodes_def)




subsection \<open>Defaults of collectGlobalConfig\<close>

lemma globalApi_values:
  assumes "globalApi u = Inr c"
  shows "map_of c ''use_online_api'' = Some (JBool (checkedOr ''use-online-api'' u))"
    and "\<not> checkedOr ''use-online-api'' u \<Longrightarrow>
         map_of c ''ollama_api_url'' = Some (JStr (valueOr ''ollama-api-url'' ''http://127.0.0.1:11434'' u))"
    and "checkedOr ''use-online-api'' u \<Longrightarrow>
         map_of c ''online_api_url'' = Some (JStr (valueOr ''online-api-url'' [] u)) \<and>
         map_of c ''online_api_key'' = Some (JStr (valueOr ''online-api-key'' [] u)) \<and>
         map_of c ''online_api_model'' = Some (JStr (valueOr ''online-model-name'' [] u))"
  using assms
  by (auto simp: globalApi_def Let_def thenDo_def valueOf_def map_of_setField
      split: option.splits if_splits)

lemma valueOr_absent:
  "getElementById i u = None \<Longrightarrow> valueOr i d u = d"
  "valueById i u = Inr [] \<Longrightarrow> valueOr i d u = d"
  "getElementById i u = None \<Longrightarrow> checkedOr i u = False"
  by (auto simp: valueOr_def checkedOr_def valueById_def valueOf_def optValue_def optChecked_def
      orStr_def orFalse_def split: option.splits)

lemma globalModel_values:
  assumes "globalModel p u c0 = Inr c"
  shows "map_of c0 (p @ ''_custom_ollama_model'') = None \<Longrightarrow>
         hasField (p @ ''_custom_ollama_model'') c \<Longrightarrow>
         map_of c (p @ ''_custom_ollama_model'') =
           Some (JStr (valueOr (p @ ''-ollama-model-select'') [] u))"
    and "map_of c0 (p @ ''_custom_online_model'') = None \<Longrightarrow>
         hasField (p @ ''_custom_online_model'') c \<Longrightarrow>
         map_of c (p @ ''_custom_online_model'') =
           Some (JStr (valueOr (p @ ''-online-model-name'') [] u))"
  using assms
  by (auto simp: globalModel_def Let_def thenDo_def valueOf_def map_of_setField hasField_def
      split: option.splits if_splits)

text \<open>
  C4, as amended. \<^verbatim>\<open>collectGlobalConfig\<close> returns a draft for every document and never
  throws. Its flag is false when the element \<^verbatim>\<open>use-online-api\<close> is absent. Under a false
  flag the Ollama address is \<^verbatim>\<open>http://127.0.0.1:11434\<close> when its input is absent or empty.
  Under a true flag each of the three online fields is the empty string when its input is
  absent. A custom model name that is collected is the empty string when its element is
  absent.
\<close>

theorem global_collector_total:
  "\<exists>c. collectGlobalConfig u = Inr c \<and>
     (getElementById ''use-online-api'' u = None \<longrightarrow>
        map_of c ''use_online_api'' = Some (JBool False)) \<and>
     (map_of c ''use_online_api'' = Some (JBool False) \<and>
      (getElementById ''ollama-api-url'' u = None \<or> valueById ''ollama-api-url'' u = Inr []) \<longrightarrow>
        map_of c ''ollama_api_url'' = Some (JStr ''http://127.0.0.1:11434'')) \<and>
     (map_of c ''use_online_api'' = Some (JBool True) \<and>
      getElementById ''online-api-url'' u = None \<longrightarrow>
        map_of c ''online_api_url'' = Some (JStr [])) \<and>
     (map_of c ''use_online_api'' = Some (JBool True) \<and>
      getElementById ''online-api-key'' u = None \<longrightarrow>
        map_of c ''online_api_key'' = Some (JStr [])) \<and>
     (map_of c ''use_online_api'' = Some (JBool True) \<and>
      getElementById ''online-model-name'' u = None \<longrightarrow>
        map_of c ''online_api_model'' = Some (JStr [])) \<and>
     (hasField ''analysis_custom_ollama_model'' c \<and>
      getElementById ''analysis-ollama-model-select'' u = None \<longrightarrow>
        map_of c ''analysis_custom_ollama_model'' = Some (JStr [])) \<and>
     (hasField ''analysis_custom_online_model'' c \<and>
      getElementById ''analysis-online-model-name'' u = None \<longrightarrow>
        map_of c ''analysis_custom_online_model'' = Some (JStr [])) \<and>
     (hasField ''writing_custom_ollama_model'' c \<and>
      getElementById ''writing-ollama-model-select'' u = None \<longrightarrow>
        map_of c ''writing_custom_ollama_model'' = Some (JStr [])) \<and>
     (hasField ''writing_custom_online_model'' c \<and>
      getElementById ''writing-online-model-name'' u = None \<longrightarrow>
        map_of c ''writing_custom_online_model'' = Some (JStr []))"
proof -
  obtain c0 where 0: "globalApi u = Inr c0" using globalApi_total by blast
  obtain c1 where 1: "globalModel ''analysis'' u c0 = Inr c1" using globalModel_total by blast
  obtain c where 2: "globalModel ''writing'' u c1 = Inr c" using globalModel_total by blast
  have c: "collectGlobalConfig u = Inr c"
    by (simp add: collectGlobalConfig_def thenDo_def 0 1 2)
  have api: "map_of c k = map_of c0 k" if "k \<in> set apiKeys" for k
    using that globalModel_other[OF 2, of k] globalModel_other[OF 1, of k] keys_apart[of k]
    by simp
  have an: "map_of c k = map_of c1 k" if "k \<in> set (modelKeys ''analysis'')" for k
    using that globalModel_other[OF 2, of k] keys_apart(3)[of k] by simp
  have n0: "map_of c0 k = None"
    if "k \<in> set (modelKeys ''analysis'') \<union> set (modelKeys ''writing'')" for k
    using that by (rule globalApi_branch(2)[OF 0])
  have n1: "map_of c1 k = None" if "k \<in> set (modelKeys ''writing'')" for k
    using that globalModel_other[OF 1, of k] keys_apart(3)[of k] n0[of k] by auto
  have flag: "map_of c ''use_online_api'' = Some (JBool (checkedOr ''use-online-api'' u))"
    using api[of "''use_online_api''"] globalApi_values(1)[OF 0] by (simp add: apiKeys_def)
  have url: "\<not> checkedOr ''use-online-api'' u \<Longrightarrow>
         map_of c ''ollama_api_url'' = Some (JStr (valueOr ''ollama-api-url'' ''http://127.0.0.1:11434'' u))"
    using api[of "''ollama_api_url''"] globalApi_values(2)[OF 0] by (simp add: apiKeys_def)
  have onl: "checkedOr ''use-online-api'' u \<Longrightarrow>
         map_of c ''online_api_url'' = Some (JStr (valueOr ''online-api-url'' [] u)) \<and>
         map_of c ''online_api_key'' = Some (JStr (valueOr ''online-api-key'' [] u)) \<and>
         map_of c ''online_api_model'' = Some (JStr (valueOr ''online-model-name'' [] u))"
    using api[of "''online_api_url''"] api[of "''online_api_key''"] api[of "''online_api_model''"]
      globalApi_values(3)[OF 0] by (simp add: apiKeys_def)
  have ao: "hasField ''analysis_custom_ollama_model'' c \<Longrightarrow>
      map_of c ''analysis_custom_ollama_model'' =
        Some (JStr (valueOr ''analysis-ollama-model-select'' [] u))"
    using globalModel_values(1)[OF 1] an[of "''analysis_custom_ollama_model''"]
      n0[of "''analysis_custom_ollama_model''"]
    by (simp add: modelKeys_def hasField_def)
  have ai: "hasField ''analysis_custom_online_model'' c \<Longrightarrow>
      map_of c ''analysis_custom_online_model'' =
        Some (JStr (valueOr ''analysis-online-model-name'' [] u))"
    using globalModel_values(2)[OF 1] an[of "''analysis_custom_online_model''"]
      n0[of "''analysis_custom_online_model''"]
    by (simp add: modelKeys_def hasField_def)
  have wo: "hasField ''writing_custom_ollama_model'' c \<Longrightarrow>
      map_of c ''writing_custom_ollama_model'' =
        Some (JStr (valueOr ''writing-ollama-model-select'' [] u))"
    using globalModel_values(1)[OF 2] n1[of "''writing_custom_ollama_model''"]
    by (simp add: modelKeys_def)
  have wi: "hasField ''writing_custom_online_model'' c \<Longrightarrow>
      map_of c ''writing_custom_online_model'' =
        Some (JStr (valueOr ''writing-online-model-name'' [] u))"
    using globalModel_values(2)[OF 2] n1[of "''writing_custom_online_model''"]
    by (simp add: modelKeys_def)
  show ?thesis
  proof (rule exI[of _ c], intro conjI impI)
    show "collectGlobalConfig u = Inr c" by (rule c)
    show "map_of c ''use_online_api'' = Some (JBool False)"
      if "getElementById ''use-online-api'' u = None"
      using that by (simp add: flag valueOr_absent)
    show "map_of c ''ollama_api_url'' = Some (JStr ''http://127.0.0.1:11434'')"
      if "map_of c ''use_online_api'' = Some (JBool False) \<and>
        (getElementById ''ollama-api-url'' u = None \<or> valueById ''ollama-api-url'' u = Inr [])"
      using that flag url by (auto simp: valueOr_absent)
    show "map_of c ''online_api_url'' = Some (JStr [])"
      if "map_of c ''use_online_api'' = Some (JBool True) \<and>
        getElementById ''online-api-url'' u = None"
      using that flag onl by (simp add: valueOr_absent)
    show "map_of c ''online_api_key'' = Some (JStr [])"
      if "map_of c ''use_online_api'' = Some (JBool True) \<and>
        getElementById ''online-api-key'' u = None"
      using that flag onl by (simp add: valueOr_absent)
    show "map_of c ''online_api_model'' = Some (JStr [])"
      if "map_of c ''use_online_api'' = Some (JBool True) \<and>
        getElementById ''online-model-name'' u = None"
      using that flag onl by (simp add: valueOr_absent)
    show "map_of c ''analysis_custom_ollama_model'' = Some (JStr [])"
      if "hasField ''analysis_custom_ollama_model'' c \<and>
        getElementById ''analysis-ollama-model-select'' u = None"
      using that by (simp add: ao valueOr_absent)
    show "map_of c ''analysis_custom_online_model'' = Some (JStr [])"
      if "hasField ''analysis_custom_online_model'' c \<and>
        getElementById ''analysis-online-model-name'' u = None"
      using that by (simp add: ai valueOr_absent)
    show "map_of c ''writing_custom_ollama_model'' = Some (JStr [])"
      if "hasField ''writing_custom_ollama_model'' c \<and>
        getElementById ''writing-ollama-model-select'' u = None"
      using that by (simp add: wo valueOr_absent)
    show "map_of c ''writing_custom_online_model'' = Some (JStr [])"
      if "hasField ''writing_custom_online_model'' c \<and>
        getElementById ''writing-online-model-name'' u = None"
      using that by (simp add: wi valueOr_absent)
  qed
qed

theorem global_collector_total_witness:
  "collectGlobalConfig emptyPage =
     Inr [(''use_online_api'', JBool False), (''ollama_api_url'', JStr ''http://127.0.0.1:11434'')] \<and>
   getElementById ''use-online-api'' emptyPage = None \<and>
   getElementById ''ollama-api-url'' emptyPage = None \<and>
   collectGlobalConfig onlinePage = Inr onlineDraft \<and>
   map_of onlineDraft ''use_online_api'' = Some (JBool True) \<and>
   getElementById ''online-api-url'' onlinePage = None \<and>
   map_of onlineDraft ''online_api_url'' = Some (JStr []) \<and>
   hasField ''analysis_custom_ollama_model'' onlineDraft \<and>
   getElementById ''analysis-ollama-model-select'' onlinePage = None \<and>
   map_of onlineDraft ''analysis_custom_ollama_model'' = Some (JStr [])"
  using global_collector_total[of emptyPage] global_collector_total[of onlinePage]
    empty_collect(1) online_collect(1)
  by (simp add: emptyPage_def onlinePage_def getElementById_pageOf onlineNodes_def
      onlineDraft_def hasField_def)

text \<open>
  The claim as stated fails twice on the empty document: the collector of the form's
  submit handler throws, and \<^verbatim>\<open>collectGlobalConfig\<close> falls back to the local address, not
  to the empty string.
\<close>

theorem global_collector_total_counterexample:
  "collectFormConfig emptyPage = Inl typeError \<and>
   collectGlobalConfig emptyPage =
     Inr [(''use_online_api'', JBool False), (''ollama_api_url'', JStr ''http://127.0.0.1:11434'')] \<and>
   ''http://127.0.0.1:11434'' \<noteq> []"
  using empty_collect by simp

subsection \<open>Handlers of a failed request\<close>

lemmas stmt_defs = settle_def emit_def skip_def return_def assign_def setDisabled_def
  setText_def setHtml_def setDisplay_def setVal_def setClassName_def withElement_def deref_def
  whenSome_def tryValue_def call_def

lemma sendAction_fail:
  "failure out \<Longrightarrow> sendActionSettle this h out u =
     (Normal, restore this lbl_send
        (u\<lparr>trace := trace u @ [Alert (failText msg_action_failed msg_action_error out)]\<rparr>))"
  by (simp add: stmt_defs sendActionSettle_def settle_def sendActionThen_def emit_def failure_def
      failText_def restore_def split: outcome.splits)

lemma saveGame_fail:
  "failure out \<Longrightarrow> saveGameSettle this out u =
     (Normal, restore this lbl_save_game
        (u\<lparr>trace := trace u @ [Alert (failText msg_save_failed msg_save_error out)]\<rparr>))"
  by (simp add: stmt_defs saveGameSettle_def settle_def emit_def failure_def
      failText_def restore_def split: outcome.splits)

lemma loadChat_fail:
  "failure out \<Longrightarrow> loadChatSettle e this out u =
     (Normal, restore this lbl_load
        (u\<lparr>trace := trace u @ [Alert (failText msg_load_failed msg_load_error out)]\<rparr>))"
  by (simp add: stmt_defs loadChatSettle_def settle_def emit_def failure_def
      failText_def restore_def split: outcome.splits)

lemma deleteChat_fail:
  "failure out \<Longrightarrow> deleteChatSettle this out u =
     (Normal, restore this lbl_delete
        (u\<lparr>trace := trace u @ [Alert (failText msg_delete_failed msg_delete_error out)]\<rparr>))"
  by (simp add: stmt_defs deleteChatSettle_def deleteChatThen_def settle_def emit_def failure_def
      failText_def restore_def split: outcome.splits)

lemma startNarrative_fail:
  "failure out \<Longrightarrow> startNarrativeSettle this out u =
     (Normal, restore this lbl_start_journey
        (u\<lparr>trace := trace u @ [Alert (failText msg_start_failed msg_start_error out)]\<rparr>))"
  by (simp add: stmt_defs startNarrativeSettle_def startNarrativeThen_def settle_def emit_def failure_def
      failText_def restore_def skip_def setDisabled_def setText_def assign_def
      split: outcome.splits)

lemma testApi_fail:
  "failure out \<Longrightarrow> testApiSettle this r out u =
     (Normal, restore this lbl_test_connection
        (u\<lparr>store := (store u)(r := (store u r)\<lparr>content :=
              Text (failText msg_test_failed msg_test_error out)\<rparr>)\<rparr>))"
  by (simp add: stmt_defs testApiSettle_def settle_def failure_def setText_def assign_def
      failText_def restore_def split: outcome.splits)

lemma config_fail:
  "failure out \<Longrightarrow> configSettle config out u =
     (Normal, u\<lparr>trace := trace u @ [Alert (failText msg_config_failed msg_config_error out)]\<rparr>)"
  by (simp add: stmt_defs configSettle_def settle_def emit_def failure_def skip_def
      failText_def split: outcome.splits)

lemma globalSave_fail:
  "failure out \<Longrightarrow> globalSaveSettle e g config out u =
     (Normal, u\<lparr>store := (store u)(g := removeClass ''saving'' (store u g)),
        trace := trace u @ [Alert (failText msg_global_failed msg_global_error out)]\<rparr>)"
  by (simp add: stmt_defs globalSaveSettle_def settle_def emit_def failure_def assign_def
      failText_def split: outcome.splits)

lemma settings_fail:
  "failure out \<Longrightarrow> settingsSettle out u =
     (Normal, u\<lparr>trace := trace u @
        [Alert (case out of Rejected e \<Rightarrow> msg_settings_error @ e
                | Resolved d \<Rightarrow> msg_settings_failed)]\<rparr>)"
  by (simp add: stmt_defs settingsSettle_def settle_def emit_def failure_def skip_def
      split: outcome.splits)

lemma reset_fail:
  "failure out \<Longrightarrow> resetSettle out u =
     (Normal, u\<lparr>trace := trace u @
        [Alert (case out of Rejected e \<Rightarrow> msg_reset_error @ e
                | Resolved d \<Rightarrow> msg_reset_failed)]\<rparr>)"
  by (simp add: stmt_defs resetSettle_def settle_def emit_def failure_def skip_def
      split: outcome.splits)

lemma upload_fail:
  "failure out \<Longrightarrow> getElementById ''processing-card'' u = Some p \<Longrightarrow> uploadSettle out u =
     (Normal, u\<lparr>store := (store u)(p := (store u p)\<lparr>display := ''none''\<rparr>),
        trace := trace u @ [Alert (failText msg_upload_failed msg_upload_error out)]\<rparr>)"
  by (simp add: stmt_defs uploadSettle_def settle_def emit_def failure_def skip_def withElement_def
      setDisplay_def assign_def failText_def split: outcome.splits)

lemma refresh_fail:
  "failure out \<Longrightarrow> refreshSettle e out u =
     (Normal, (case refreshModelsBtn e of None \<Rightarrow> (\<lambda>u. u) | Some b \<Rightarrow> restore b lbl_refresh_models)
        (u\<lparr>trace := trace u @
           [case out of Rejected err \<Rightarrow> ConsoleError msg_models_error err
            | Resolved d \<Rightarrow> ConsoleError msg_models_failed (strU (error d))]\<rparr>))"
  by (simp add: stmt_defs refreshSettle_def refreshThen_def settle_def emit_def failure_def whenSome_def
      restore_def split: outcome.splits option.splits)

subsection \<open>Sending an action\<close>

lemma find_insert: "\<not> P c \<Longrightarrow> find P (take k xs @ c # drop k xs) = find P xs"
proof (induction xs arbitrary: k)
  case Nil
  then show ?case by simp
next
  case (Cons x xs)
  then show ?case by (cases k) simp_all
qed

lemma drop_after_last:
  "b \<in> set (drop (length (dropWhile (\<lambda>b. \<not> Q b) (rev xs))) xs) \<Longrightarrow> \<not> Q b"
proof -
  assume b: "b \<in> set (drop (length (dropWhile (\<lambda>b. \<not> Q b) (rev xs))) xs)"
  have "rev xs = takeWhile (\<lambda>b. \<not> Q b) (rev xs) @ dropWhile (\<lambda>b. \<not> Q b) (rev xs)"
    by simp
  then have "xs = rev (dropWhile (\<lambda>b. \<not> Q b) (rev xs)) @ rev (takeWhile (\<lambda>b. \<not> Q b) (rev xs))"
    by (metis rev_append rev_rev_ident)
  then have "drop (length (dropWhile (\<lambda>b. \<not> Q b) (rev xs))) xs
      = rev (takeWhile (\<lambda>b. \<not> Q b) (rev xs))"
    by (metis append_eq_conv_conj length_rev)
  with b have "b \<in> set (takeWhile (\<lambda>b. \<not> Q b) (rev xs))" by simp
  then show ?thesis by (rule set_takeWhileD[THEN conjunct2])
qed

lemma child_inSubtree:
  "b \<in> set (doc u) \<Longrightarrow> parent (store u b) = Some h \<Longrightarrow> inSubtree u h b"
  by (cases "doc u") (auto simp: inSubtree_def ancestorsOf_def)

lemma appendChild_children:
  assumes c: "c \<notin> set (doc u)" and h: "h \<in> set (doc u)"
  shows "children (snd (appendChild h c u)) h = children u h @ [c]"
proof -
  define k where "k = length (dropWhile (\<lambda>b. \<not> inSubtree u h b) (rev (doc u)))"
  define P where "P = (\<lambda>b. parent (store u b) = Some h)"
  have later: "filter P (drop k (doc u)) = []"
    unfolding filter_empty_conv P_def
  proof
    fix b assume b: "b \<in> set (drop k (doc u))"
    then have "\<not> inSubtree u h b" unfolding k_def by (rule drop_after_last)
    moreover have "b \<in> set (doc u)" using b by (rule in_set_dropD)
    ultimately show "parent (store u b) \<noteq> Some h" using child_inSubtree by blast
  qed
  have same: "filter (\<lambda>b. b \<noteq> c \<longrightarrow> parent (store u b) = Some h) xs
      = filter P xs" if "set xs \<subseteq> set (doc u)" for xs
    by (rule filter_cong) (use that c in \<open>auto simp: P_def\<close>)
  have "children (snd (appendChild h c u)) h =
      filter P (take k (doc u)) @ [c] @ filter P (drop k (doc u))"
    using h
    by (simp add: children_def appendChild_def Let_def k_def[symmetric] same set_take_subset
        set_drop_subset)
  also have "\<dots> = (filter P (take k (doc u)) @ filter P (drop k (doc u))) @ [c]"
    by (simp add: later)
  also have "\<dots> = filter P (take k (doc u) @ drop k (doc u)) @ [c]"
    by (simp only: filter_append)
  finally show ?thesis by (simp add: children_def P_def)
qed

lemma children_cong:
  "doc u' = doc u \<Longrightarrow> (\<And>a. parent (store u' a) = parent (store u a)) \<Longrightarrow>
   children u' h = children u h"
  by (simp add: children_def)

lemma getElementById_in_doc: "getElementById i u = Some a \<Longrightarrow> a \<in> set (doc u)"
  by (auto simp: getElementById_def find_Some_iff)

lemma sendAction_click:
  assumes act: "valueById ''user-action'' u = Inr act" and ne: "act \<noteq> []"
    and nh: "getElementById ''narrative-history'' u = Some h"
    and fr: "fresh u \<notin> set (doc u)"
  shows "fst (sendActionClick this u) = Normal"
    and "children (snd (sendActionClick this u)) h = children u h @ [fresh u]"
    and "valueById ''user-action'' (snd (sendActionClick this u)) = Inr []"
    and "trace (snd (sendActionClick this u)) =
           trace u @ [Fetch ''/process_action'' (Json [(''action'', JStr act)])]"
    and "store (snd (sendActionClick this u)) (fresh u) =
             (blankNode ''div'')\<lparr>classList := [''message-container'', ''user-message''],
               content := Html (entryHtml speaker_user act), parent := Some h\<rparr>"
    and "this \<noteq> fresh u \<Longrightarrow>
           disabled (store (snd (sendActionClick this u)) this) \<and>
           content (store (snd (sendActionClick this u)) this) = Text lbl_processing"
proof -
  obtain inp where inp: "getElementById ''user-action'' u = Some inp"
    and v: "val (store u inp) = act"
    using act by (auto simp: valueById_def valueOf_def split: option.splits)
  define m where "m = fresh u"
  define u1 where
    "u1 = u\<lparr>store := (store u)(this := (store u this)\<lparr>disabled := True,
            content := Text lbl_processing\<rparr>)\<rparr>"
  define u2 where
    "u2 = u1\<lparr>store := (store u1)(m := (blankNode ''div'')\<lparr>classList :=
            [''message-container'', ''user-message''],
            content := Html (entryHtml speaker_user act)\<rparr>), fresh := Suc m\<rparr>"
  define u3 where "u3 = snd (appendChild h m u2)"
  define u4 where "u4 = u3\<lparr>store := (store u3)(inp := (store u3 inp)\<lparr>val := []\<rparr>)\<rparr>"
  define u5 where
    "u5 = u4\<lparr>trace := trace u4 @ [Fetch ''/process_action'' (Json [(''action'', JStr act)])]\<rparr>"
  have hd: "h \<in> set (doc u)" using nh by (rule getElementById_in_doc)
  have id: "inp \<in> set (doc u)" using inp by (rule getElementById_in_doc)
  have mi: "m \<noteq> inp" "m \<noteq> h" using fr hd id by (auto simp: m_def)
  have g1: "getElementById ''narrative-history'' u1 = Some h"
    unfolding nh[symmetric] by (rule getElementById_cong) (simp_all add: u1_def)
  have d2: "doc u2 = doc u" by (simp add: u2_def u1_def)
  have f1: "fresh u1 = m" by (simp add: u1_def m_def)
  have ap: "appendChild h (fresh u1) u2 = (Normal, u3)"
    by (simp add: u3_def appendChild_def Let_def f1)
  have d3: "doc u3 = take (length (dropWhile (\<lambda>b. \<not> inSubtree u2 h b) (rev (doc u))))
      (doc u) @ m # drop (length (dropWhile (\<lambda>b. \<not> inSubtree u2 h b) (rev (doc u)))) (doc u)"
    using hd by (simp add: u3_def appendChild_def Let_def d2)
  have i3: "ident (store u3 a) = (if a = m then None else ident (store u a))" for a
    by (simp add: u3_def appendChild_def Let_def u2_def u1_def blankNode_def)
  have g3: "getElementById ''user-action'' u3 = Some inp"
  proof -
    define k where "k = length (dropWhile (\<lambda>b. \<not> inSubtree u2 h b) (rev (doc u)))"
    have "find (\<lambda>a. ident (store u3 a) = Some ''user-action'') (take k (doc u) @ m # drop k (doc u))
        = find (\<lambda>a. ident (store u3 a) = Some ''user-action'') (doc u)"
      by (rule find_insert) (simp add: i3)
    also have "\<dots> = find (\<lambda>a. ident (store u a) = Some ''user-action'') (doc u)"
      by (rule find_cong) (use fr in \<open>auto simp: i3 m_def\<close>)
    finally show ?thesis
      using inp by (simp add: getElementById_def d3 k_def)
  qed
  have u2': "u1\<lparr>fresh := Suc (fresh u1), store := (store u1)(fresh u1 := blankNode ''div''
        \<lparr>classList := [''message-container'', ''user-message''],
          content := Html (entryHtml speaker_user act)\<rparr>)\<rparr> = u2"
    by (simp add: u2_def u1_def m_def)
  have run: "sendActionClick this u = (Normal, u5)"
    using act ne
    by (simp add: sendActionClick_def tryValue_def setDisabled_def setText_def assign_def
        u1_def[symmetric] g1 Let_def createElement_def setClassName_def
        setHtml_def deref_def u2' ap withElement_def g3 setVal_def
        u4_def[symmetric] emit_def u5_def[symmetric])
  show "fst (sendActionClick this u) = Normal" by (simp add: run)
  have c2: "children u2 h = children u h"
    unfolding children_def d2
    by (rule filter_cong) (use fr in \<open>auto simp: u2_def u1_def m_def\<close>)
  have c3: "children u3 h = children u h @ [m]"
    unfolding u3_def c2[symmetric]
    by (rule appendChild_children) (use fr hd in \<open>simp_all add: d2 m_def\<close>)
  have "children u5 h = children u3 h"
    by (rule children_cong) (simp_all add: u5_def u4_def)
  then show "children (snd (sendActionClick this u)) h = children u h @ [fresh u]"
    by (simp add: run c3 m_def)
  have "getElementById ''user-action'' u5 = getElementById ''user-action'' u3"
    by (rule getElementById_cong) (simp_all add: u5_def u4_def)
  then show "valueById ''user-action'' (snd (sendActionClick this u)) = Inr []"
    by (simp add: run valueById_def valueOf_def g3) (simp add: u5_def u4_def)
  show "trace (snd (sendActionClick this u)) =
           trace u @ [Fetch ''/process_action'' (Json [(''action'', JStr act)])]"
    by (simp add: run u5_def u4_def u3_def appendChild_def Let_def u2_def u1_def)
  show "store (snd (sendActionClick this u)) (fresh u) =
             (blankNode ''div'')\<lparr>classList := [''message-container'', ''user-message''],
               content := Html (entryHtml speaker_user act), parent := Some h\<rparr>"
    using mi by (simp add: run u5_def u4_def u3_def appendChild_def Let_def u2_def m_def)
  show "disabled (store (snd (sendActionClick this u)) this) \<and>
        content (store (snd (sendActionClick this u)) this) = Text lbl_processing"
    if "this \<noteq> fresh u"
    using that
    by (simp add: run u5_def u4_def u3_def appendChild_def Let_def u2_def u1_def m_def)
qed

subsection \<open>Busy controls\<close>













lemma filter_pageOf:
  "filter (\<lambda>a. P (store (pageOf ns) a)) (doc (pageOf ns)) = allAt P 0 ns"
  using filter_upt_allAt[of ns "store (pageOf ns)" 0 P]
  by (simp add: pageOf_def)

lemma children_pageOf: "children (pageOf ns) h = allAt (\<lambda>n. parent n = Some h) 0 ns"
  unfolding children_def by (rule filter_pageOf)

lemma mini_facts:
  "valueById ''user-action'' miniPage = Inr ''look around''"
  "getElementById ''narrative-history'' miniPage = Some 17"
  "getElementById ''test-result'' miniPage = Some 28"
  "valueById ''test-message'' miniPage = Inr ''hello''"
  "valueById ''ollama-api-url'' miniPage = Inr ''http://127.0.0.1:11434''"
  "refreshModelsBtn (pageEnv miniPage) = Some 25"
  "getElementById ''processing-card'' miniPage = Some 14"
  "children miniPage 17 = []"
  "fresh miniPage = 29"
  "getAttribute ''data-path'' (store miniPage 23) = Some ''history/1.json''"
  "getAttribute ''data-path'' (store miniPage 24) = Some ''history/1.json''"
  by (simp_all add: miniPage_def valueById_def valueOf_def getElementById_pageOf children_pageOf
      pageEnv_def getAttribute_def store_pageOf miniNodes_def)
     (simp add: pageOf_def)

lemma fresh_pageOf: "fresh (pageOf ns) \<notin> set (doc (pageOf ns))"
  by (simp add: pageOf_def)






subsection \<open>What a failed request leaves\<close>

lemma sendAction_failed:
  assumes "valueById ''user-action'' u = Inr act" and "act \<noteq> []"
    and "getElementById ''narrative-history'' u = Some h"
    and "fresh u \<notin> set (doc u)" and "failure out"
  shows "children (snd (sendActionSettle this h out (snd (sendActionClick this u)))) h
           = children u h @ [fresh u]"
    and "valueById ''user-action'' (snd (sendActionSettle this h out (snd (sendActionClick this u))))
           = Inr []"
    and "this \<noteq> fresh u \<Longrightarrow>
         content (store (snd (sendActionSettle this h out (snd (sendActionClick this u)))) (fresh u))
           = Html (entryHtml speaker_user act)"
proof -
  define u1 where "u1 = snd (sendActionClick this u)"
  define u2 where "u2 = snd (sendActionSettle this h out u1)"
  have u2: "u2 = restore this lbl_send
        (u1\<lparr>trace := trace u1 @ [Alert (failText msg_action_failed msg_action_error out)]\<rparr>)"
    by (simp add: u2_def sendAction_fail[OF assms(5)])
  have "children u2 h = children u1 h"
    by (rule children_cong) (simp_all add: u2 restore_def)
  then show "children (snd (sendActionSettle this h out (snd (sendActionClick this u)))) h
           = children u h @ [fresh u]"
    using sendAction_click(2)[OF assms(1-4), of this] by (simp add: u2_def u1_def)
  have "getElementById ''user-action'' u2 = getElementById ''user-action'' u1"
    by (rule getElementById_cong) (simp_all add: u2 restore_def)
  moreover have "valueOf r u2 = valueOf r u1" for r
    by (simp add: valueOf_def u2 restore_def split: option.splits)
  ultimately have "valueById ''user-action'' u2 = valueById ''user-action'' u1"
    by (simp add: valueById_def)
  then show "valueById ''user-action'' (snd (sendActionSettle this h out (snd (sendActionClick this u))))
           = Inr []"
    using sendAction_click(3)[OF assms(1-4), of this] by (simp add: u2_def u1_def)
  show "content (store (snd (sendActionSettle this h out (snd (sendActionClick this u)))) (fresh u))
           = Html (entryHtml speaker_user act)" if "this \<noteq> fresh u"
    using that sendAction_click(5)[OF assms(1-4), of this]
    by (simp add: u2[unfolded u2_def u1_def] restore_def)
qed

text \<open>
  C3, as amended. When a request fails, by a response with \<^verbatim>\<open>success: false\<close> or by a
  rejection, the handlers of the response leave the document as it was when the response
  arrived, except that they enable the triggering control again under its fixed label,
  show the failure (in an alert, in the result text of the API test, or on the console for
  the model list), and, for the upload, hide the processing card; the floating button
  leaves its saving state. The writes of the click handler stay: for an action whose text
  has no \<^verbatim>\<open><\<close>, sent from a page that has the transcript, after a failed
  \<^verbatim>\<open>/process_action\<close> request the transcript is the transcript before the click followed by
  the entry of the user's action, and the input of the action is empty. The entry is a new
  element: its address is not in the document before the click, and its content is read
  when the button is another element.
\<close>

theorem failed_request_frame:
  "failure out \<longrightarrow>
     sendActionSettle this h out u =
       (Normal, restore this lbl_send
          (u\<lparr>trace := trace u @ [Alert (failText msg_action_failed msg_action_error out)]\<rparr>)) \<and>
     saveGameSettle this out u =
       (Normal, restore this lbl_save_game
          (u\<lparr>trace := trace u @ [Alert (failText msg_save_failed msg_save_error out)]\<rparr>)) \<and>
     loadChatSettle e this out u =
       (Normal, restore this lbl_load
          (u\<lparr>trace := trace u @ [Alert (failText msg_load_failed msg_load_error out)]\<rparr>)) \<and>
     deleteChatSettle this out u =
       (Normal, restore this lbl_delete
          (u\<lparr>trace := trace u @ [Alert (failText msg_delete_failed msg_delete_error out)]\<rparr>)) \<and>
     startNarrativeSettle this out u =
       (Normal, restore this lbl_start_journey
          (u\<lparr>trace := trace u @ [Alert (failText msg_start_failed msg_start_error out)]\<rparr>)) \<and>
     testApiSettle this r out u =
       (Normal, restore this lbl_test_connection
          (u\<lparr>store := (store u)(r := (store u r)\<lparr>content :=
                Text (failText msg_test_failed msg_test_error out)\<rparr>)\<rparr>)) \<and>
     configSettle config out u =
       (Normal, u\<lparr>trace := trace u @ [Alert (failText msg_config_failed msg_config_error out)]\<rparr>) \<and>
     globalSaveSettle e g config out u =
       (Normal, u\<lparr>store := (store u)(g := removeClass ''saving'' (store u g)),
          trace := trace u @ [Alert (failText msg_global_failed msg_global_error out)]\<rparr>) \<and>
     settingsSettle out u =
       (Normal, u\<lparr>trace := trace u @
          [Alert (case out of Rejected err \<Rightarrow> msg_settings_error @ err
                  | Resolved d \<Rightarrow> msg_settings_failed)]\<rparr>) \<and>
     resetSettle out u =
       (Normal, u\<lparr>trace := trace u @
          [Alert (case out of Rejected err \<Rightarrow> msg_reset_error @ err
                  | Resolved d \<Rightarrow> msg_reset_failed)]\<rparr>) \<and>
     refreshSettle e out u =
       (Normal, (case refreshModelsBtn e of None \<Rightarrow> (\<lambda>u. u)
                 | Some b \<Rightarrow> restore b lbl_refresh_models)
          (u\<lparr>trace := trace u @
             [case out of Rejected err \<Rightarrow> ConsoleError msg_models_error err
              | Resolved d \<Rightarrow> ConsoleError msg_models_failed (strU (error d))]\<rparr>)) \<and>
     (getElementById ''processing-card'' u = Some p \<longrightarrow>
        uploadSettle out u =
          (Normal, u\<lparr>store := (store u)(p := (store u p)\<lparr>display := ''none''\<rparr>),
             trace := trace u @ [Alert (failText msg_upload_failed msg_upload_error out)]\<rparr>)) \<and>
     (valueById ''user-action'' u = Inr act \<and> act \<noteq> [] \<and> plainText act \<and>
      getElementById ''narrative-history'' u = Some h \<and> fresh u \<notin> set (doc u) \<longrightarrow>
        children (snd (sendActionSettle this h out (snd (sendActionClick this u)))) h
          = children u h @ [fresh u] \<and>
        valueById ''user-action'' (snd (sendActionSettle this h out (snd (sendActionClick this u))))
          = Inr [] \<and>
        (this \<noteq> fresh u \<longrightarrow>
           content (store (snd (sendActionSettle this h out (snd (sendActionClick this u))))
             (fresh u)) = Html (entryHtml speaker_user act)))"
proof (intro impI conjI)
  assume f: "failure out"
  show "sendActionSettle this h out u =
       (Normal, restore this lbl_send
          (u\<lparr>trace := trace u @ [Alert (failText msg_action_failed msg_action_error out)]\<rparr>))"
    by (rule sendAction_fail[OF f])
  show "saveGameSettle this out u =
       (Normal, restore this lbl_save_game
          (u\<lparr>trace := trace u @ [Alert (failText msg_save_failed msg_save_error out)]\<rparr>))"
    by (rule saveGame_fail[OF f])
  show "loadChatSettle e this out u =
       (Normal, restore this lbl_load
          (u\<lparr>trace := trace u @ [Alert (failText msg_load_failed msg_load_error out)]\<rparr>))"
    by (rule loadChat_fail[OF f])
  show "deleteChatSettle this out u =
       (Normal, restore this lbl_delete
          (u\<lparr>trace := trace u @ [Alert (failText msg_delete_failed msg_delete_error out)]\<rparr>))"
    by (rule deleteChat_fail[OF f])
  show "startNarrativeSettle this out u =
       (Normal, restore this lbl_start_journey
          (u\<lparr>trace := trace u @ [Alert (failText msg_start_failed msg_start_error out)]\<rparr>))"
    by (rule startNarrative_fail[OF f])
  show "testApiSettle this r out u =
       (Normal, restore this lbl_test_connection
          (u\<lparr>store := (store u)(r := (store u r)\<lparr>content :=
                Text (failText msg_test_failed msg_test_error out)\<rparr>)\<rparr>))"
    by (rule testApi_fail[OF f])
  show "configSettle config out u =
       (Normal, u\<lparr>trace := trace u @ [Alert (failText msg_config_failed msg_config_error out)]\<rparr>)"
    by (rule config_fail[OF f])
  show "globalSaveSettle e g config out u =
       (Normal, u\<lparr>store := (store u)(g := removeClass ''saving'' (store u g)),
          trace := trace u @ [Alert (failText msg_global_failed msg_global_error out)]\<rparr>)"
    by (rule globalSave_fail[OF f])
  show "settingsSettle out u =
       (Normal, u\<lparr>trace := trace u @
          [Alert (case out of Rejected err \<Rightarrow> msg_settings_error @ err
                  | Resolved d \<Rightarrow> msg_settings_failed)]\<rparr>)"
    by (rule settings_fail[OF f])
  show "resetSettle out u =
       (Normal, u\<lparr>trace := trace u @
          [Alert (case out of Rejected err \<Rightarrow> msg_reset_error @ err
                  | Resolved d \<Rightarrow> msg_reset_failed)]\<rparr>)"
    by (rule reset_fail[OF f])
  show "refreshSettle e out u =
       (Normal, (case refreshModelsBtn e of None \<Rightarrow> (\<lambda>u. u)
                 | Some b \<Rightarrow> restore b lbl_refresh_models)
          (u\<lparr>trace := trace u @
             [case out of Rejected err \<Rightarrow> ConsoleError msg_models_error err
              | Resolved d \<Rightarrow> ConsoleError msg_models_failed (strU (error d))]\<rparr>))"
    by (rule refresh_fail[OF f])
  show "uploadSettle out u =
          (Normal, u\<lparr>store := (store u)(p := (store u p)\<lparr>display := ''none''\<rparr>),
             trace := trace u @ [Alert (failText msg_upload_failed msg_upload_error out)]\<rparr>)"
    if "getElementById ''processing-card'' u = Some p"
    using that by (rule upload_fail[OF f])
  assume a: "valueById ''user-action'' u = Inr act \<and> act \<noteq> [] \<and> plainText act \<and>
      getElementById ''narrative-history'' u = Some h \<and> fresh u \<notin> set (doc u)"
  show "children (snd (sendActionSettle this h out (snd (sendActionClick this u)))) h
          = children u h @ [fresh u]"
    using a f by (simp add: sendAction_failed(1))
  show "valueById ''user-action'' (snd (sendActionSettle this h out (snd (sendActionClick this u))))
          = Inr []"
    using a f by (simp add: sendAction_failed(2))
  show "content (store (snd (sendActionSettle this h out (snd (sendActionClick this u))))
             (fresh u)) = Html (entryHtml speaker_user act)" if "this \<noteq> fresh u"
    using a f that by (simp add: sendAction_failed(3))
qed

theorem failed_request_frame_witness:
  "failure (Rejected ''offline'') \<and>
   valueById ''user-action'' miniPage = Inr ''look around'' \<and>
   plainText ''look around'' \<and>
   getElementById ''narrative-history'' miniPage = Some 17 \<and>
   fresh miniPage \<notin> set (doc miniPage) \<and>
   getElementById ''processing-card'' miniPage = Some 14 \<and>
   children miniAfterFailedAction 17 = children miniPage 17 @ [fresh miniPage] \<and>
   valueById ''user-action'' miniAfterFailedAction = Inr [] \<and>
   content (store miniAfterFailedAction (fresh miniPage)) =
     Html (entryHtml speaker_user ''look around'') \<and>
   uploadSettle (Rejected ''offline'') miniPage =
     (Normal, miniPage\<lparr>store := (store miniPage)(14 := (store miniPage 14)\<lparr>display := ''none''\<rparr>),
        trace := trace miniPage @
          [Alert (failText msg_upload_failed msg_upload_error (Rejected ''offline''))]\<rparr>) \<and>
   saveGameSettle 20 (Rejected ''offline'') miniPage =
     (Normal, restore 20 lbl_save_game
        (miniPage\<lparr>trace := trace miniPage @
           [Alert (failText msg_save_failed msg_save_error (Rejected ''offline''))]\<rparr>))"
proof -
  have fr: "fresh miniPage \<notin> set (doc miniPage)"
    using fresh_pageOf[of miniNodes] by (simp add: miniPage_def)
  have f: "failure (Rejected ''offline'')" by (simp add: failure_def)
  show ?thesis
    using f fr
      failed_request_frame[where out="Rejected ''offline''" and u=miniPage and this=19 and h=17
        and act="''look around''" and p=14]
      failed_request_frame[where out="Rejected ''offline''" and u=miniPage and this=20]
    by (simp add: mini_facts miniAfterFailedAction_def plainText_def)
qed

text \<open>
  The claim as stated fails for the button that sends the action: after a rejected request
  the transcript has the user's entry, which it did not have before the click, and the
  input of the action is empty, which it was not.
\<close>

theorem failed_request_frame_counterexample:
  "children miniPage 17 = [] \<and>
   children miniAfterFailedAction 17 = [29] \<and>
   valueById ''user-action'' miniPage = Inr ''look around'' \<and>
   valueById ''user-action'' miniAfterFailedAction = Inr []"
proof -
  have fr: "fresh miniPage \<notin> set (doc miniPage)"
    using fresh_pageOf[of miniNodes] by (simp add: miniPage_def)
  have f: "failure (Rejected ''offline'')" by (simp add: failure_def)
  show ?thesis
    using sendAction_failed(1,2)[OF mini_facts(1) _ mini_facts(2) fr f, of 19]
    by (simp add: mini_facts miniAfterFailedAction_def)
qed

subsection \<open>How a reported error is shown\<close>

text \<open>
  C5, as amended. For a response with \<^verbatim>\<open>success: false\<close> that carries an error string, the
  handlers of the configuration form, the floating button, the narrative start, the
  action, the game save and the history load and delete show one alert, whose text is
  their fixed prefix followed by that string; so does the upload when the processing card
  is in the document. The API test writes its prefix and the string into its result
  element. The settings form and the reset button show a fixed text without the string,
  and the refresh of the model list writes the string to the console and shows no alert.
\<close>

theorem error_surfaced:
  "\<not> success d \<and> error d = Some err \<longrightarrow>
     trace (snd (configSettle config (Resolved d) u)) = trace u @ [Alert (msg_config_failed @ err)] \<and>
     trace (snd (globalSaveSettle e g config (Resolved d) u))
       = trace u @ [Alert (msg_global_failed @ err)] \<and>
     trace (snd (startNarrativeSettle this (Resolved d) u))
       = trace u @ [Alert (msg_start_failed @ err)] \<and>
     trace (snd (sendActionSettle this h (Resolved d) u))
       = trace u @ [Alert (msg_action_failed @ err)] \<and>
     trace (snd (saveGameSettle this (Resolved d) u)) = trace u @ [Alert (msg_save_failed @ err)] \<and>
     trace (snd (loadChatSettle e this (Resolved d) u)) = trace u @ [Alert (msg_load_failed @ err)] \<and>
     trace (snd (deleteChatSettle this (Resolved d) u))
       = trace u @ [Alert (msg_delete_failed @ err)] \<and>
     (getElementById ''processing-card'' u \<noteq> None \<longrightarrow>
        trace (snd (uploadSettle (Resolved d) u)) = trace u @ [Alert (msg_upload_failed @ err)]) \<and>
     (r \<noteq> this \<longrightarrow>
        content (store (snd (testApiSettle this r (Resolved d) u)) r)
          = Text (msg_test_failed @ err)) \<and>
     trace (snd (settingsSettle (Resolved d) u)) = trace u @ [Alert msg_settings_failed] \<and>
     trace (snd (resetSettle (Resolved d) u)) = trace u @ [Alert msg_reset_failed] \<and>
     trace (snd (refreshSettle e (Resolved d) u))
       = trace u @ [ConsoleError msg_models_failed err]"
proof (intro impI)
  assume a: "\<not> success d \<and> error d = Some err"
  then have f: "failure (Resolved d)" by (simp add: failure_def)
  have t: "failText x y (Resolved d) = x @ err" for x y
    using a by (simp add: failText_def strU_def)
  show "trace (snd (configSettle config (Resolved d) u)) = trace u @ [Alert (msg_config_failed @ err)] \<and>
     trace (snd (globalSaveSettle e g config (Resolved d) u))
       = trace u @ [Alert (msg_global_failed @ err)] \<and>
     trace (snd (startNarrativeSettle this (Resolved d) u))
       = trace u @ [Alert (msg_start_failed @ err)] \<and>
     trace (snd (sendActionSettle this h (Resolved d) u))
       = trace u @ [Alert (msg_action_failed @ err)] \<and>
     trace (snd (saveGameSettle this (Resolved d) u)) = trace u @ [Alert (msg_save_failed @ err)] \<and>
     trace (snd (loadChatSettle e this (Resolved d) u)) = trace u @ [Alert (msg_load_failed @ err)] \<and>
     trace (snd (deleteChatSettle this (Resolved d) u))
       = trace u @ [Alert (msg_delete_failed @ err)] \<and>
     (getElementById ''processing-card'' u \<noteq> None \<longrightarrow>
        trace (snd (uploadSettle (Resolved d) u)) = trace u @ [Alert (msg_upload_failed @ err)]) \<and>
     (r \<noteq> this \<longrightarrow>
        content (store (snd (testApiSettle this r (Resolved d) u)) r)
          = Text (msg_test_failed @ err)) \<and>
     trace (snd (settingsSettle (Resolved d) u)) = trace u @ [Alert msg_settings_failed] \<and>
     trace (snd (resetSettle (Resolved d) u)) = trace u @ [Alert msg_reset_failed] \<and>
     trace (snd (refreshSettle e (Resolved d) u))
       = trace u @ [ConsoleError msg_models_failed err]"
    using a
    by (auto simp: config_fail[OF f] globalSave_fail[OF f] startNarrative_fail[OF f]
        sendAction_fail[OF f] saveGame_fail[OF f] loadChat_fail[OF f] deleteChat_fail[OF f]
        upload_fail[OF f] testApi_fail[OF f] settings_fail[OF f] reset_fail[OF f]
        refresh_fail[OF f] t restore_def strU_def split: option.splits)
qed

theorem error_surfaced_witness:
  "\<not> success (failedReply ''disk full'') \<and> error (failedReply ''disk full'') = Some ''disk full'' \<and>
   getElementById ''processing-card'' miniPage \<noteq> None \<and>
   trace (snd (saveGameSettle 20 (Resolved (failedReply ''disk full'')) miniPage))
     = [Alert (msg_save_failed @ ''disk full'')] \<and>
   trace (snd (uploadSettle (Resolved (failedReply ''disk full'')) miniPage))
     = [Alert (msg_upload_failed @ ''disk full'')] \<and>
   content (store (snd (testApiSettle 27 28 (Resolved (failedReply ''disk full'')) miniPage)) 28)
     = Text (msg_test_failed @ ''disk full'')"
  using error_surfaced[where d="failedReply ''disk full''" and err="''disk full''" and u=miniPage
      and this=20]
    error_surfaced[where d="failedReply ''disk full''" and err="''disk full''" and u=miniPage
      and this=27 and r=28]
  by (simp add: failedReply_def mini_facts) (simp add: miniPage_def pageOf_def)

text \<open>
  The claim as stated fails for the settings form and the reset button: the alert is the
  same fixed text whatever error string the response carries.
\<close>

theorem error_surfaced_counterexample:
  "trace (snd (settingsSettle (Resolved (failedReply ''disk full'')) miniPage))
     = [Alert msg_settings_failed] \<and>
   trace (snd (settingsSettle (Resolved (failedReply ''quota exceeded'')) miniPage))
     = [Alert msg_settings_failed] \<and>
   trace (snd (resetSettle (Resolved (failedReply ''disk full'')) miniPage))
     = [Alert msg_reset_failed] \<and>
   \<not> endsWith ''disk full'' msg_settings_failed \<and>
   \<not> endsWith ''disk full'' msg_reset_failed"
  by (simp add: settings_fail reset_fail failure_def failedReply_def miniPage_def pageOf_def
      endsWith_def msg_settings_failed_def msg_reset_failed_def)

subsection \<open>Starting the narrative on the rendered page\<close>

lemma index_ids:
  "getElementById ''narrative-card'' indexPage = None"
  "getElementById ''initializing-narrative-card'' indexPage = Some 32"
  "getElementById ''narrative-history'' indexPage = Some 24"
  "getElementById ''narrative-view'' indexPage = Some 23"
  "getElementById ''start-narrative-btn'' indexPage = Some 33"
  by (simp_all add: indexPage_def getElementById_pageOf indexNodes_def)

lemma startNarrative_missing_card:
  assumes "getElementById ''narrative-card'' u = None"
    and "getElementById ''initializing-narrative-card'' u = Some c"
    and "success d"
  shows "startNarrativeSettle this (Resolved d) u =
     (Normal, restore this lbl_start_journey
        (u\<lparr>store := (store u)(c := (store u c)\<lparr>display := ''none''\<rparr>),
           trace := trace u @ [Alert (msg_start_error @ typeError)]\<rparr>))"
proof -
  define u1 where "u1 = u\<lparr>store := (store u)(c := (store u c)\<lparr>display := ''none''\<rparr>)\<rparr>"
  have 1: "withElement ''initializing-narrative-card'' (\<lambda>c. setDisplay c ''none'') u = (Normal, u1)"
    by (simp add: withElement_def assms(2) setDisplay_def assign_def u1_def)
  have "getElementById ''narrative-card'' u1 = getElementById ''narrative-card'' u"
    by (rule getElementById_cong) (simp_all add: u1_def)
  then have 2: "withElement ''narrative-card'' k u1 = (Throw typeError, u1)" for k
    by (simp add: withElement_def assms(1))
  have "startNarrativeThen this d u = (Throw typeError, u1)"
    using assms(3) by (simp add: startNarrativeThen_def 1 2)
  then show ?thesis
    by (simp add: startNarrativeSettle_def settle_def stmt_defs emit_def skip_def setDisabled_def
        setText_def assign_def restore_def u1_def)
qed

text \<open>
  C1. On the page as the template renders it there is no element with the identifier
  \<^verbatim>\<open>narrative-card\<close> that the handler looks up: the narrative panel is
  \<^verbatim>\<open>narrative-view\<close>. For the successful response whose narrative is the welcome text, the
  handler hides the initializing card and then fails on that lookup; the rejection handler
  shows an alert and enables the button again. No entry is appended to the transcript and
  the narrative panel stays hidden.
\<close>

theorem start_narrative_misses_card:
  "success welcomeReply \<and> initial_narrative welcomeReply = Some txt_welcome \<and>
   getElementById ''narrative-card'' indexPage = None \<and>
   getElementById ''narrative-view'' indexPage = Some 23 \<and>
   getElementById ''narrative-history'' indexPage = Some 24 \<and>
   getElementById ''initializing-narrative-card'' indexPage = Some 32 \<and>
   getElementById ''start-narrative-btn'' indexPage = Some 33 \<and>
   doc indexAfterStart = doc indexPage \<and>
   children indexAfterStart 24 = children indexPage 24 \<and>
   display (store indexPage 23) = ''none'' \<and>
   display (store indexAfterStart 23) = ''none'' \<and>
   display (store indexAfterStart 32) = ''none'' \<and>
   trace indexAfterStart =
     [Fetch ''/start_narrative'' NoBody, Alert (msg_start_error @ typeError)] \<and>
   idle 33 lbl_start_journey indexAfterStart"
proof -
  define u1 where "u1 = snd (startNarrativeClick 33 indexPage)"
  have u1: "u1 = indexPage\<lparr>store := (store indexPage)(33 := (store indexPage 33)
        \<lparr>disabled := True, content := Text lbl_initializing\<rparr>),
      trace := [Fetch ''/start_narrative'' NoBody]\<rparr>"
    by (simp add: u1_def startNarrativeClick_def stmt_defs setDisabled_def setText_def assign_def
        emit_def indexPage_def pageOf_def)
  have nc: "getElementById ''narrative-card'' u1 = None"
    using getElementById_cong[of u1 indexPage "''narrative-card''"]
    by (simp add: u1 index_ids)
  have ic: "getElementById ''initializing-narrative-card'' u1 = Some 32"
    using getElementById_cong[of u1 indexPage "''initializing-narrative-card''"]
    by (simp add: u1 index_ids)
  have s: "success welcomeReply" by (simp add: welcomeReply_def)
  have after: "indexAfterStart = restore 33 lbl_start_journey
        (u1\<lparr>store := (store u1)(32 := (store u1 32)\<lparr>display := ''none''\<rparr>),
           trace := trace u1 @ [Alert (msg_start_error @ typeError)]\<rparr>)"
    unfolding indexAfterStart_def u1_def[symmetric]
    by (simp add: startNarrative_missing_card[OF nc ic s])
  have d: "doc indexAfterStart = doc indexPage"
    by (simp add: after restore_def u1)
  have c: "children indexAfterStart 24 = children indexPage 24"
    by (rule children_cong) (simp_all add: after restore_def u1)
  have v: "display (store indexPage 23) = ''none''"
    by (simp add: indexPage_def store_pageOf indexNodes_def)
  have v': "display (store indexAfterStart 23) = display (store indexPage 23)"
    by (simp add: after restore_def u1)
  have i: "display (store indexAfterStart 32) = ''none''"
    by (simp add: after restore_def u1)
  have t: "trace indexAfterStart =
      [Fetch ''/start_narrative'' NoBody, Alert (msg_start_error @ typeError)]"
    by (simp add: after restore_def u1)
  have b: "idle 33 lbl_start_journey indexAfterStart"
    by (simp add: idle_def after restore_def u1)
  show ?thesis
    using s d c v v' i t b by (simp add: index_ids welcomeReply_def)
qed

end
